theory Spec2Isabelle
  imports Main
begin

section \<open>Python text and parsed YAML values\<close>

text \<open>
  A Python \<^verbatim>\<open>str\<close> is a sequence of Unicode code points, so text is a list of
  code points. \<open>lit\<close> reads an ASCII literal of the source.
\<close>

type_synonym pystr = "nat list"

definition lit :: "string \<Rightarrow> pystr" where
  "lit s = map of_char s"

abbreviation newline :: nat where "newline \<equiv> 10"
abbreviation bar :: nat where "bar \<equiv> 124"
abbreviation backslash :: nat where "backslash \<equiv> 92"

text \<open>
  What \<^verbatim>\<open>yaml.safe_load\<close> hands to the program: nested mappings and sequences over
  scalars. A mapping keeps its entries in document order; its keys are scalars.
  Floats, dates and binary scalars are left out of the model.
\<close>

datatype yval =
    YNone
  | YBool bool
  | YInt int
  | YStr pystr
  | YList "yval list"
  | YDict "(yval \<times> yval) list"

datatype pyerr = AttributeError | TypeError | UnicodeEncodeError | OSError

text \<open>\<^verbatim>\<open>d.get(key, default)\<close> on the entries of a mapping, the key being a text.\<close>

definition dict_get :: "(yval \<times> yval) list \<Rightarrow> pystr \<Rightarrow> yval \<Rightarrow> yval" where
  "dict_get d k dflt = (case map_of d (YStr k) of None \<Rightarrow> dflt | Some v \<Rightarrow> v)"

text \<open>\<^verbatim>\<open>obj.get(key, default)\<close> on an object of any type: only a mapping has the method.\<close>

definition py_get :: "yval \<Rightarrow> pystr \<Rightarrow> yval \<Rightarrow> pyerr + yval" where
  "py_get obj k dflt =
     (case obj of
        YDict d \<Rightarrow> Inr (dict_get d k dflt)
      | _ \<Rightarrow> Inl AttributeError)"

text \<open>
  \<^verbatim>\<open>for x in obj\<close>: a sequence yields its elements, a mapping its keys, a text its
  one-character texts; nothing else is iterable.
\<close>

definition py_iter :: "yval \<Rightarrow> pyerr + yval list" where
  "py_iter obj =
     (case obj of
        YList xs \<Rightarrow> Inr xs
      | YDict d \<Rightarrow> Inr (map fst d)
      | YStr s \<Rightarrow> Inr (map (\<lambda>c. YStr [c]) s)
      | _ \<Rightarrow> Inl TypeError)"

text \<open>Truth value of an object in \<^verbatim>\<open>if obj:\<close>.\<close>

definition py_truthy :: "yval \<Rightarrow> bool" where
  "py_truthy obj =
     (case obj of
        YNone \<Rightarrow> False
      | YBool b \<Rightarrow> b
      | YInt i \<Rightarrow> i \<noteq> 0
      | YStr s \<Rightarrow> s \<noteq> []
      | YList xs \<Rightarrow> xs \<noteq> []
      | YDict d \<Rightarrow> d \<noteq> [])"

fun digits :: "nat \<Rightarrow> pystr" where
  "digits n = (if n < 10 then [48 + n] else digits (n div 10) @ [48 + n mod 10])"

declare digits.simps [simp del]

text \<open>
  \<^verbatim>\<open>str(obj)\<close>, which is also what an f-string field formats. The text of a
  sequence or mapping is its \<^verbatim>\<open>repr\<close>, a builtin that depends on the Unicode
  tables; it is the parameter \<open>rp\<close>.
\<close>

definition py_str :: "(yval \<Rightarrow> pystr) \<Rightarrow> yval \<Rightarrow> pystr" where
  "py_str rp obj =
     (case obj of
        YNone \<Rightarrow> lit ''None''
      | YBool b \<Rightarrow> (if b then lit ''True'' else lit ''False'')
      | YInt i \<Rightarrow> (if i < 0 then 45 # digits (nat (- i)) else digits (nat i))
      | YStr s \<Rightarrow> s
      | YList xs \<Rightarrow> rp obj
      | YDict d \<Rightarrow> rp obj)"

text \<open>
  \<^verbatim>\<open>str.replace(old, new)\<close>: non-overlapping occurrences, left to right; an empty
  \<open>old\<close> matches before every character and at the end.
\<close>

function py_replace :: "pystr \<Rightarrow> pystr \<Rightarrow> pystr \<Rightarrow> pystr" where
  "py_replace old new [] = (if old = [] then new else [])"
| "py_replace old new (x # xs) =
     (if old = [] then new @ x # py_replace old new xs
      else if take (length old) (x # xs) = old
           then new @ py_replace old new (drop (length old) (x # xs))
           else x # py_replace old new xs)"
  by pat_completeness auto
termination
  by (relation "measure (\<lambda>(old, new, s). length s)") auto

text \<open>
  The code points \<^verbatim>\<open>str.strip()\<close> removes: those for which \<^verbatim>\<open>str.isspace\<close> holds.
\<close>

definition is_space :: "nat \<Rightarrow> bool" where
  "is_space c \<longleftrightarrow>
     (9 \<le> c \<and> c \<le> 13) \<or> (28 \<le> c \<and> c \<le> 32) \<or> c = 133 \<or> c = 160 \<or> c = 5760 \<or>
     (8192 \<le> c \<and> c \<le> 8202) \<or> c = 8232 \<or> c = 8233 \<or> c = 8239 \<or> c = 8287 \<or> c = 12288"

definition py_strip :: "pystr \<Rightarrow> pystr" where
  "py_strip s = rev (dropWhile is_space (rev (dropWhile is_space s)))"

text \<open>\<^verbatim>\<open>obj.strip()\<close> on an object of any type: only text has the method.\<close>

definition strip_obj :: "yval \<Rightarrow> pyerr + pystr" where
  "strip_obj obj = (case obj of YStr s \<Rightarrow> Inr (py_strip s) | _ \<Rightarrow> Inl AttributeError)"

text \<open>\<^verbatim>\<open>sep.join(xs)\<close> on a list of texts.\<close>

fun join :: "pystr \<Rightarrow> pystr list \<Rightarrow> pystr" where
  "join sep [] = []"
| "join sep [x] = x"
| "join sep (x # y # ys) = x @ sep @ join sep (y # ys)"

text \<open>\<^verbatim>\<open>sep.join(xs)\<close> on a list of objects: an element that is not text is a TypeError.\<close>

fun texts_of :: "yval list \<Rightarrow> pystr list option" where
  "texts_of [] = Some []"
| "texts_of (YStr s # xs) = map_option ((#) s) (texts_of xs)"
| "texts_of (_ # xs) = None"

definition py_join :: "pystr \<Rightarrow> yval list \<Rightarrow> pyerr + pystr" where
  "py_join sep xs = (case texts_of xs of None \<Rightarrow> Inl TypeError | Some ts \<Rightarrow> Inr (join sep ts))"

section \<open>Effects: provider calls, diagnostics and exceptions\<close>

text \<open>
  A run leaves a trace of its calls to the translation provider and of the lines it
  prints, and either returns a value or raises. The trace is kept when it raises.
\<close>

datatype event = Translate pystr | Print pystr

type_synonym 'a io = "(pyerr + 'a) \<times> event list"

definition return_io :: "'a \<Rightarrow> 'a io" where
  "return_io x = (Inr x, [])"

definition lift_io :: "pyerr + 'a \<Rightarrow> 'a io" where
  "lift_io r = (r, [])"

definition bind_io :: "'a io \<Rightarrow> ('a \<Rightarrow> 'b io) \<Rightarrow> 'b io" where
  "bind_io m f =
     (case fst m of
        Inl e \<Rightarrow> (Inl e, snd m)
      | Inr x \<Rightarrow> (fst (f x), snd m @ snd (f x)))"

text \<open>A \<^verbatim>\<open>for\<close> loop that appends one result per element.\<close>

primrec mapM_io :: "('a \<Rightarrow> 'b io) \<Rightarrow> 'a list \<Rightarrow> 'b list io" where
  "mapM_io f [] = return_io []"
| "mapM_io f (x # xs) =
     bind_io (f x) (\<lambda>y. bind_io (mapM_io f xs) (\<lambda>ys. return_io (y # ys)))"

text \<open>
  The translation provider, with the import and the construction of the translator: given
  the text it returns the translation (the text its result formats to), or fails by
  raising an instance of \<^verbatim>\<open>Exception\<close>, which is what the \<^verbatim>\<open>except\<close> clause of the
  augmenter catches; \<open>Exception m\<close> keeps the text \<^verbatim>\<open>str(e)\<close>. An interrupt
  or an interpreter exit during the call is not a failure of the provider and is not part
  of the model. Within a run the provider answers as a function of the text.
\<close>

datatype exn = Exception pystr

type_synonym provider = "pystr \<Rightarrow> exn + pystr"

text \<open>
  Standard output: writing a line either goes through or raises, for instance
  \<^verbatim>\<open>UnicodeEncodeError\<close> when the encoding of the stream cannot encode the line.
\<close>

type_synonym stdout = "pystr \<Rightarrow> pyerr option"

text \<open>What a run meets outside the program: the provider and standard output.\<close>

record env =
  translate :: provider
  stdout :: stdout

section \<open>Sanitizer and augmenter\<close>

definition sanitize_description :: "pystr \<Rightarrow> pystr" where
  "sanitize_description text =
     py_replace [bar] [backslash, bar] (py_replace [newline] (lit ''<br>'') text)"

text \<open>
  The prefix of the diagnostic line: the Cyrillic literal of the source ("translation
  error", a colon and a space), as code points.
\<close>

definition error_prefix :: pystr where
  "error_prefix =
     [1054, 1096, 1080, 1073, 1082, 1072, 32, 1087, 1077, 1088, 1077, 1074, 1086, 1076,
      1072, 58, 32]"

definition dual_description :: "env \<Rightarrow> yval \<Rightarrow> bool \<Rightarrow> yval io" where
  "dual_description env text do_translate =
     (if \<not> do_translate then return_io text
      else
        (case text of
           YStr s \<Rightarrow>
             if py_strip s = [] then return_io text
             else
               (case translate env s of
                  Inr ru \<Rightarrow>
                    (Inr (YStr (ru @ lit ''<br><i>'' @ s @ lit ''</i>'')), [Translate s])
                | Inl (Exception m) \<Rightarrow>
                    (case stdout env (error_prefix @ m) of
                       None \<Rightarrow> (Inr text, [Translate s, Print (error_prefix @ m)])
                     | Some e \<Rightarrow> (Inl e, [Translate s])))
         | _ \<Rightarrow> lift_io (Inl AttributeError)))"

text \<open>\<^verbatim>\<open>sanitize_description(obj)\<close> on an object of any type: only text has \<^verbatim>\<open>replace\<close>.\<close>

definition sanitize_obj :: "yval \<Rightarrow> pyerr + pystr" where
  "sanitize_obj obj =
     (case obj of YStr s \<Rightarrow> Inr (sanitize_description s) | _ \<Rightarrow> Inl AttributeError)"

section \<open>Table renderer\<close>

text \<open>
  The accumulator of the fold is the variable \<^verbatim>\<open>table\<close>; the first argument of
  \<open>foldl\<close> is the body of the loop over the rows.
\<close>

definition markdown_table :: "(yval \<Rightarrow> pystr) \<Rightarrow> yval list \<Rightarrow> yval list list \<Rightarrow> pyerr + pystr" where
  "markdown_table rp headers rows =
     (case py_join (lit '' | '') headers of
        Inl e \<Rightarrow> Inl e
      | Inr h \<Rightarrow>
          Inr (foldl
                (\<lambda>table row.
                   table @ lit ''| '' @
                   join (lit '' | '') (map (\<lambda>cell. sanitize_description (py_str rp cell)) row) @
                   lit '' |'' @ [newline])
                ((lit ''| '' @ h @ lit '' |'' @ [newline]) @
                 (lit ''| '' @ join (lit '' | '') (replicate (length headers) (lit ''---'')) @
                  lit '' |'' @ [newline]))
                rows))"

section \<open>Entity extractors\<close>

record item_record =
  i_name :: yval
  i_key :: yval
  i_type :: yval
  i_value_type :: yval
  i_units :: yval
  i_description :: yval

record macro_record =
  m_macro :: yval
  m_value :: yval
  m_description :: yval

record trigger_record =
  t_name :: yval
  t_expression :: yval
  t_priority :: yval
  t_description :: yval

record drule_record =
  d_name :: yval
  d_key :: yval
  d_description :: yval

text \<open>The record appended for one entry: the fields of the dictionary display, in order.\<close>

definition item_entry :: "env \<Rightarrow> bool \<Rightarrow> yval \<Rightarrow> item_record io" where
  "item_entry env do_translate item =
     bind_io (lift_io (py_get item (lit ''name'') (YStr []))) (\<lambda>name.
     bind_io (lift_io (py_get item (lit ''key'') (YStr []))) (\<lambda>key.
     bind_io (lift_io (py_get item (lit ''type'') (YStr []))) (\<lambda>ty.
     bind_io (lift_io (py_get item (lit ''value_type'') (YStr []))) (\<lambda>vt.
     bind_io (lift_io (py_get item (lit ''units'') (YStr []))) (\<lambda>units.
     bind_io (lift_io (py_get item (lit ''description'') (YStr []))) (\<lambda>d.
     bind_io (dual_description env d do_translate) (\<lambda>description.
     return_io \<lparr>i_name = name, i_key = key, i_type = ty, i_value_type = vt,
                i_units = units, i_description = description\<rparr>)))))))"

definition extract_items :: "env \<Rightarrow> yval \<Rightarrow> bool \<Rightarrow> item_record list io" where
  "extract_items env template do_translate =
     bind_io (lift_io (py_get template (lit ''items'') (YList []))) (\<lambda>coll.
     bind_io (lift_io (py_iter coll)) (\<lambda>entries.
     mapM_io (item_entry env do_translate) entries))"

definition macro_entry :: "env \<Rightarrow> bool \<Rightarrow> yval \<Rightarrow> macro_record io" where
  "macro_entry env do_translate m =
     bind_io (lift_io (py_get m (lit ''macro'') (YStr []))) (\<lambda>macro.
     bind_io (lift_io (py_get m (lit ''value'') (YStr []))) (\<lambda>val.
     bind_io (lift_io (py_get m (lit ''description'') (YStr []))) (\<lambda>d.
     bind_io (dual_description env d do_translate) (\<lambda>description.
     return_io \<lparr>m_macro = macro, m_value = val, m_description = description\<rparr>))))"

definition extract_macros :: "env \<Rightarrow> yval \<Rightarrow> bool \<Rightarrow> macro_record list io" where
  "extract_macros env template do_translate =
     bind_io (lift_io (py_get template (lit ''macros'') (YList []))) (\<lambda>coll.
     bind_io (lift_io (py_iter coll)) (\<lambda>entries.
     mapM_io (macro_entry env do_translate) entries))"

definition trigger_entry :: "env \<Rightarrow> bool \<Rightarrow> yval \<Rightarrow> trigger_record io" where
  "trigger_entry env do_translate trigger =
     bind_io (lift_io (py_get trigger (lit ''name'') (YStr []))) (\<lambda>name.
     bind_io (lift_io (py_get trigger (lit ''expression'') (YStr []))) (\<lambda>expression.
     bind_io (lift_io (py_get trigger (lit ''priority'') (YStr []))) (\<lambda>priority.
     bind_io (lift_io (py_get trigger (lit ''description'') (YStr []))) (\<lambda>d.
     bind_io (dual_description env d do_translate) (\<lambda>description.
     return_io \<lparr>t_name = name, t_expression = expression, t_priority = priority,
                t_description = description\<rparr>)))))"

text \<open>The inner loop of the first phase: the triggers nested in one item.\<close>

definition item_triggers :: "env \<Rightarrow> bool \<Rightarrow> yval \<Rightarrow> trigger_record list io" where
  "item_triggers env do_translate item =
     bind_io (lift_io (py_get item (lit ''triggers'') (YList []))) (\<lambda>coll.
     bind_io (lift_io (py_iter coll)) (\<lambda>entries.
     mapM_io (trigger_entry env do_translate) entries))"

definition extract_triggers :: "env \<Rightarrow> yval \<Rightarrow> bool \<Rightarrow> trigger_record list io" where
  "extract_triggers env template do_translate =
     bind_io (lift_io (py_get template (lit ''items'') (YList []))) (\<lambda>coll.
     bind_io (lift_io (py_iter coll)) (\<lambda>items.
     bind_io (mapM_io (item_triggers env do_translate) items) (\<lambda>nested.
     bind_io (lift_io (py_get template (lit ''triggers'') (YList []))) (\<lambda>coll2.
     bind_io (lift_io (py_iter coll2)) (\<lambda>trigs.
     bind_io (mapM_io (trigger_entry env do_translate) trigs) (\<lambda>top.
     return_io (concat nested @ top)))))))"

definition drule_entry :: "env \<Rightarrow> bool \<Rightarrow> yval \<Rightarrow> drule_record io" where
  "drule_entry env do_translate d =
     bind_io (lift_io (py_get d (lit ''name'') (YStr []))) (\<lambda>name.
     bind_io (lift_io (py_get d (lit ''key'') (YStr []))) (\<lambda>key.
     bind_io (lift_io (py_get d (lit ''description'') (YStr []))) (\<lambda>dd.
     bind_io (dual_description env dd do_translate) (\<lambda>description.
     return_io \<lparr>d_name = name, d_key = key, d_description = description\<rparr>))))"

definition extract_discovery_rules :: "env \<Rightarrow> yval \<Rightarrow> bool \<Rightarrow> drule_record list io" where
  "extract_discovery_rules env template do_translate =
     bind_io (lift_io (py_get template (lit ''discovery_rules'') (YList []))) (\<lambda>coll.
     bind_io (lift_io (py_iter coll)) (\<lambda>entries.
     mapM_io (drule_entry env do_translate) entries))"

section \<open>Document assembler\<close>

text \<open>
  The body of \<^verbatim>\<open>main\<close> between loading the document and writing the file. Each
  definition below is one stretch of the loop body and returns the text it appends to
  \<^verbatim>\<open>md_output\<close>.
\<close>

definition item_headers :: "yval list" where
  "item_headers =
     map (\<lambda>s. YStr (lit s)) [''Name'', ''Key'', ''Type'', ''Value type'', ''Units'', ''Description'']"

definition trigger_headers :: "yval list" where
  "trigger_headers = map (\<lambda>s. YStr (lit s)) [''Name'', ''Expression'', ''Priority'', ''Description'']"

definition macro_headers :: "yval list" where
  "macro_headers = map (\<lambda>s. YStr (lit s)) [''Macro'', ''Value'', ''Description'']"

definition drule_headers :: "yval list" where
  "drule_headers = map (\<lambda>s. YStr (lit s)) [''Name'', ''Key'', ''Description'']"

definition title_md :: "(yval \<Rightarrow> pystr) \<Rightarrow> yval \<Rightarrow> pystr io" where
  "title_md rp tpl =
     bind_io (lift_io (py_get tpl (lit ''template'') (YStr []))) (\<lambda>name.
     return_io (lit ''# Template: '' @ py_str rp name @ [newline, newline]))"

definition description_md :: "env \<Rightarrow> bool \<Rightarrow> yval \<Rightarrow> pystr io" where
  "description_md env do_translate tpl =
     bind_io (lift_io (py_get tpl (lit ''description'') (YStr []))) (\<lambda>d.
     bind_io (lift_io (strip_obj d)) (\<lambda>description.
     if description \<noteq> [] then
       bind_io (dual_description env (YStr description) do_translate) (\<lambda>aug.
       bind_io (lift_io (sanitize_obj aug)) (\<lambda>s.
       return_io (s @ [newline, newline])))
     else return_io []))"

definition item_row :: "(yval \<Rightarrow> pystr) \<Rightarrow> item_record \<Rightarrow> yval list" where
  "item_row rp i =
     [i_name i, i_key i, YStr (py_str rp (i_type i)), YStr (py_str rp (i_value_type i)),
      i_units i, i_description i]"

definition items_section :: "(yval \<Rightarrow> pystr) \<Rightarrow> env \<Rightarrow> bool \<Rightarrow> yval \<Rightarrow> pystr io" where
  "items_section rp env do_translate tpl =
     bind_io (extract_items env tpl do_translate) (\<lambda>items.
     if items \<noteq> [] then
       bind_io (lift_io (markdown_table rp item_headers (map (item_row rp) items))) (\<lambda>table.
       return_io (lit ''## Items'' @ [newline, newline] @ table @ [newline, newline]))
     else return_io [])"

definition trigger_row :: "trigger_record \<Rightarrow> yval list" where
  "trigger_row t = [t_name t, t_expression t, t_priority t, t_description t]"

definition triggers_section :: "(yval \<Rightarrow> pystr) \<Rightarrow> env \<Rightarrow> bool \<Rightarrow> yval \<Rightarrow> pystr io" where
  "triggers_section rp env do_translate tpl =
     bind_io (extract_triggers env tpl do_translate) (\<lambda>triggers.
     if triggers \<noteq> [] then
       bind_io (lift_io (markdown_table rp trigger_headers (map trigger_row triggers))) (\<lambda>table.
       return_io (lit ''## Triggers'' @ [newline, newline] @ table @ [newline, newline]))
     else return_io [])"

definition macro_row :: "macro_record \<Rightarrow> yval list" where
  "macro_row m = [m_macro m, m_value m, m_description m]"

definition macros_section :: "(yval \<Rightarrow> pystr) \<Rightarrow> env \<Rightarrow> bool \<Rightarrow> yval \<Rightarrow> pystr io" where
  "macros_section rp env do_translate tpl =
     bind_io (extract_macros env tpl do_translate) (\<lambda>macros.
     if macros \<noteq> [] then
       bind_io (lift_io (markdown_table rp macro_headers (map macro_row macros))) (\<lambda>table.
       return_io (lit ''## Macros'' @ [newline, newline] @ table @ [newline, newline]))
     else return_io [])"

definition drule_row :: "drule_record \<Rightarrow> yval list" where
  "drule_row d = [d_name d, d_key d, d_description d]"

text \<open>One row of an item-prototype table: the inner list of the comprehension.\<close>

definition item_prototype_row :: "(yval \<Rightarrow> pystr) \<Rightarrow> env \<Rightarrow> bool \<Rightarrow> yval \<Rightarrow> yval list io" where
  "item_prototype_row rp env do_translate ip =
     bind_io (lift_io (py_get ip (lit ''name'') (YStr []))) (\<lambda>name.
     bind_io (lift_io (py_get ip (lit ''key'') (YStr []))) (\<lambda>key.
     bind_io (lift_io (py_get ip (lit ''type'') (YStr []))) (\<lambda>ty.
     bind_io (lift_io (py_get ip (lit ''value_type'') (YStr []))) (\<lambda>vt.
     bind_io (lift_io (py_get ip (lit ''units'') (YStr []))) (\<lambda>units.
     bind_io (lift_io (py_get ip (lit ''description'') (YStr []))) (\<lambda>d.
     bind_io (dual_description env d do_translate) (\<lambda>description.
     return_io [name, key, YStr (py_str rp ty), YStr (py_str rp vt), units, description])))))))"

definition trigger_prototype_row :: "env \<Rightarrow> bool \<Rightarrow> yval \<Rightarrow> yval list io" where
  "trigger_prototype_row env do_translate tp =
     bind_io (lift_io (py_get tp (lit ''name'') (YStr []))) (\<lambda>name.
     bind_io (lift_io (py_get tp (lit ''expression'') (YStr []))) (\<lambda>expression.
     bind_io (lift_io (py_get tp (lit ''priority'') (YStr []))) (\<lambda>priority.
     bind_io (lift_io (py_get tp (lit ''description'') (YStr []))) (\<lambda>d.
     bind_io (dual_description env d do_translate) (\<lambda>description.
     return_io [name, expression, priority, description])))))"

definition item_prototypes_md :: "(yval \<Rightarrow> pystr) \<Rightarrow> env \<Rightarrow> bool \<Rightarrow> yval \<Rightarrow> pystr io" where
  "item_prototypes_md rp env do_translate dr =
     bind_io (lift_io (py_get dr (lit ''item_prototypes'') (YList []))) (\<lambda>item_protos.
     if py_truthy item_protos then
       bind_io (lift_io (py_get dr (lit ''name'') YNone)) (\<lambda>name.
       bind_io (lift_io (py_iter item_protos)) (\<lambda>ips.
       bind_io (mapM_io (item_prototype_row rp env do_translate) ips) (\<lambda>rows.
       bind_io (lift_io (markdown_table rp item_headers rows)) (\<lambda>table.
       return_io (lit ''### Item prototypes for discovery: '' @ py_str rp name @
                  [newline, newline] @ table @ [newline, newline])))))
     else return_io [])"

definition trigger_prototypes_md :: "(yval \<Rightarrow> pystr) \<Rightarrow> env \<Rightarrow> bool \<Rightarrow> yval \<Rightarrow> pystr io" where
  "trigger_prototypes_md rp env do_translate dr =
     bind_io (lift_io (py_get dr (lit ''trigger_prototypes'') (YList []))) (\<lambda>trigger_protos.
     if py_truthy trigger_protos then
       bind_io (lift_io (py_get dr (lit ''name'') YNone)) (\<lambda>name.
       bind_io (lift_io (py_iter trigger_protos)) (\<lambda>tps.
       bind_io (mapM_io (trigger_prototype_row env do_translate) tps) (\<lambda>rows.
       bind_io (lift_io (markdown_table rp trigger_headers rows)) (\<lambda>table.
       return_io (lit ''### Trigger prototypes for discovery: '' @ py_str rp name @
                  [newline, newline] @ table @ [newline, newline])))))
     else return_io [])"

text \<open>The body of the loop over the discovery rules of the template.\<close>

definition prototypes_md :: "(yval \<Rightarrow> pystr) \<Rightarrow> env \<Rightarrow> bool \<Rightarrow> yval \<Rightarrow> pystr io" where
  "prototypes_md rp env do_translate dr =
     bind_io (item_prototypes_md rp env do_translate dr) (\<lambda>a.
     bind_io (trigger_prototypes_md rp env do_translate dr) (\<lambda>b.
     return_io (a @ b)))"

definition discovery_section :: "(yval \<Rightarrow> pystr) \<Rightarrow> env \<Rightarrow> bool \<Rightarrow> yval \<Rightarrow> pystr io" where
  "discovery_section rp env do_translate tpl =
     bind_io (extract_discovery_rules env tpl do_translate) (\<lambda>discovery_rules.
     if discovery_rules \<noteq> [] then
       bind_io (lift_io (markdown_table rp drule_headers (map drule_row discovery_rules))) (\<lambda>table.
       bind_io (lift_io (py_get tpl (lit ''discovery_rules'') (YList []))) (\<lambda>coll.
       bind_io (lift_io (py_iter coll)) (\<lambda>drs.
       bind_io (mapM_io (prototypes_md rp env do_translate) drs) (\<lambda>parts.
       return_io (lit ''## Discovery rules'' @ [newline, newline] @ table @ [newline, newline] @
                  concat parts)))))
     else return_io [])"

text \<open>The body of the loop over the templates.\<close>

definition template_md :: "(yval \<Rightarrow> pystr) \<Rightarrow> env \<Rightarrow> bool \<Rightarrow> yval \<Rightarrow> pystr io" where
  "template_md rp env do_translate tpl =
     bind_io (title_md rp tpl) (\<lambda>title.
     bind_io (description_md env do_translate tpl) (\<lambda>description.
     bind_io (items_section rp env do_translate tpl) (\<lambda>items.
     bind_io (triggers_section rp env do_translate tpl) (\<lambda>triggers.
     bind_io (macros_section rp env do_translate tpl) (\<lambda>macros.
     bind_io (discovery_section rp env do_translate tpl) (\<lambda>discovery.
     return_io (title @ description @ items @ triggers @ macros @ discovery)))))))"

text \<open>The text \<^verbatim>\<open>md_output\<close> that \<^verbatim>\<open>main\<close> writes for the loaded document \<open>data\<close>.\<close>

definition main_md_output :: "(yval \<Rightarrow> pystr) \<Rightarrow> env \<Rightarrow> yval \<Rightarrow> bool \<Rightarrow> pystr io" where
  "main_md_output rp env data do_translate =
     bind_io (lift_io (py_get data (lit ''zabbix_export'') (YDict []))) (\<lambda>export.
     bind_io (lift_io (py_get export (lit ''templates'') (YList []))) (\<lambda>coll.
     bind_io (lift_io (py_iter coll)) (\<lambda>templates.
     bind_io (mapM_io (template_md rp env do_translate) templates) (\<lambda>parts.
     return_io (concat parts)))))"

section \<open>Reading rendered text\<close>

text \<open>
  What the sanitizer is said to do with one code point: a line break becomes the inline
  break marker, a column delimiter gets a backslash in front, anything else stays.
\<close>

definition cell_escape :: "nat \<Rightarrow> pystr" where
  "cell_escape c =
     (if c = newline then lit ''<br>'' else if c = bar then [backslash, bar] else [c])"

text \<open>
  \<open>bars_after P k s\<close>: at every delimiter of \<open>s\<close>, the number of backslashes that stand
  immediately before it satisfies \<open>P\<close>; \<open>k\<close> backslashes stand immediately before \<open>s\<close>.
\<close>

fun bars_after :: "(nat \<Rightarrow> bool) \<Rightarrow> nat \<Rightarrow> pystr \<Rightarrow> bool" where
  "bars_after P k [] = True"
| "bars_after P k (c # cs) =
     (if c = bar then P k \<and> bars_after P 0 cs
      else if c = backslash then bars_after P (Suc k) cs
      else bars_after P 0 cs)"

text \<open>Every delimiter is preceded by exactly one backslash.\<close>

definition escaped_once :: "pystr \<Rightarrow> bool" where
  "escaped_once s = bars_after (\<lambda>k. k = 1) 0 s"

text \<open>No delimiter is preceded by a backslash.\<close>

definition bare_bars :: "pystr \<Rightarrow> bool" where
  "bare_bars s = bars_after (\<lambda>k. k = 0) 0 s"

text \<open>A row of a table: the cells between delimiters.\<close>

definition table_row :: "pystr list \<Rightarrow> pystr" where
  "table_row cells = lit ''| '' @ join (lit '' | '') cells @ lit '' |''"

text \<open>A cell as it is rendered: coerced to text, then sanitized.\<close>

definition render_cell :: "(yval \<Rightarrow> pystr) \<Rightarrow> yval \<Rightarrow> pystr" where
  "render_cell rp cell = sanitize_description (py_str rp cell)"

text \<open>
  The rows of a table: the header row, the separator row with one dash group per header,
  and one row per record, in order.
\<close>

definition table_rows :: "(yval \<Rightarrow> pystr) \<Rightarrow> pystr list \<Rightarrow> yval list list \<Rightarrow> pystr list" where
  "table_rows rp hs rows =
     table_row hs # table_row (replicate (length hs) (lit ''---'')) #
     map (\<lambda>row. table_row (map (render_cell rp) row)) rows"

text \<open>A text as its lines, each ended by a line break, and back.\<close>

definition unlines :: "pystr list \<Rightarrow> pystr" where
  "unlines ls = concat (map (\<lambda>l. l @ [newline]) ls)"

primrec split_lines :: "pystr \<Rightarrow> pystr list" where
  "split_lines [] = []"
| "split_lines (c # cs) =
     (if c = newline then [] # split_lines cs
      else (case split_lines cs of [] \<Rightarrow> [[c]] | l # ls \<Rightarrow> (c # l) # ls))"


section \<open>Shapes of values\<close>

text \<open>The object is a mapping.\<close>

definition is_dict :: "yval \<Rightarrow> bool" where
  "is_dict obj = (case obj of YDict d \<Rightarrow> True | _ \<Rightarrow> False)"

text \<open>The object is a mapping whose field \<open>k\<close> is absent or holds a sequence.\<close>

definition has_list_field :: "yval \<Rightarrow> pystr \<Rightarrow> bool" where
  "has_list_field obj k =
     (case obj of
        YDict d \<Rightarrow> (case dict_get d k (YList []) of YList xs \<Rightarrow> True | _ \<Rightarrow> False)
      | _ \<Rightarrow> False)"

text \<open>The sequence held by the field \<open>k\<close>, empty when the field is absent.\<close>

definition list_field :: "yval \<Rightarrow> pystr \<Rightarrow> yval list" where
  "list_field obj k =
     (case obj of
        YDict d \<Rightarrow> (case dict_get d k (YList []) of YList xs \<Rightarrow> xs | _ \<Rightarrow> [])
      | _ \<Rightarrow> [])"

text \<open>The field of an entry, the empty text when it is absent.\<close>

definition field :: "yval \<Rightarrow> pystr \<Rightarrow> yval" where
  "field obj k = (case obj of YDict d \<Rightarrow> dict_get d k (YStr []) | _ \<Rightarrow> YStr [])"

text \<open>
  The trigger occurrences of a template: the triggers nested in its items, in item order and
  within an item in nested order, then the triggers of the template itself.
\<close>

definition all_triggers :: "yval \<Rightarrow> yval list" where
  "all_triggers tpl =
     concat (map (\<lambda>item. list_field item (lit ''triggers'')) (list_field tpl (lit ''items''))) @
     list_field tpl (lit ''triggers'')"

text \<open>
  The item list, the trigger list of every item and the trigger list of the template are
  sequences, or absent.
\<close>

definition triggers_shape :: "yval \<Rightarrow> bool" where
  "triggers_shape tpl \<longleftrightarrow>
     has_list_field tpl (lit ''items'') \<and>
     list_all (\<lambda>item. has_list_field item (lit ''triggers'')) (list_field tpl (lit ''items'')) \<and>
     has_list_field tpl (lit ''triggers'')"

text \<open>The record of a trigger occurrence whose description is not augmented.\<close>

definition plain_trigger :: "yval \<Rightarrow> trigger_record" where
  "plain_trigger t =
     \<lparr>t_name = field t (lit ''name''), t_expression = field t (lit ''expression''),
      t_priority = field t (lit ''priority''), t_description = field t (lit ''description'')\<rparr>"

text \<open>A run that calls no provider and prints nothing.\<close>

definition quiet :: "'a io \<Rightarrow> bool" where
  "quiet m \<longleftrightarrow> snd m = []"

text \<open>
  A run that returns a value or raises what writing a diagnostic line raised, which takes
  the flag on: it raises no other error.
\<close>

definition tolerant :: "env \<Rightarrow> bool \<Rightarrow> 'a io \<Rightarrow> bool" where
  "tolerant env do_translate m =
     (case fst m of
        Inr x \<Rightarrow> True
      | Inl e \<Rightarrow> do_translate \<and> (\<exists>line. stdout env line = Some e))"

text \<open>The field is absent or holds a text.\<close>

definition text_field_ok :: "yval \<Rightarrow> pystr \<Rightarrow> bool" where
  "text_field_ok obj k =
     (case obj of
        YDict d \<Rightarrow> (case dict_get d k (YStr []) of YStr s \<Rightarrow> True | _ \<Rightarrow> False)
      | _ \<Rightarrow> False)"

text \<open>
  An entry of a collection as the data model has it: a mapping whose description, when
  present, is a text. No field is required.
\<close>

definition entry_ok :: "yval \<Rightarrow> bool" where
  "entry_ok e = text_field_ok e (lit ''description'')"

text \<open>The collection is absent or a sequence of such entries.\<close>

definition entries_ok :: "yval \<Rightarrow> pystr \<Rightarrow> bool" where
  "entries_ok obj k \<longleftrightarrow> has_list_field obj k \<and> list_all entry_ok (list_field obj k)"

text \<open>An item, with its nested triggers; a discovery rule, with its prototypes; a template.\<close>

definition item_ok :: "yval \<Rightarrow> bool" where
  "item_ok item \<longleftrightarrow> entry_ok item \<and> entries_ok item (lit ''triggers'')"

definition drule_ok :: "yval \<Rightarrow> bool" where
  "drule_ok dr \<longleftrightarrow>
     entry_ok dr \<and> entries_ok dr (lit ''item_prototypes'') \<and>
     entries_ok dr (lit ''trigger_prototypes'')"

definition template_ok :: "yval \<Rightarrow> bool" where
  "template_ok tpl \<longleftrightarrow>
     text_field_ok tpl (lit ''description'') \<and>
     has_list_field tpl (lit ''items'') \<and> list_all item_ok (list_field tpl (lit ''items'')) \<and>
     entries_ok tpl (lit ''triggers'') \<and>
     entries_ok tpl (lit ''macros'') \<and>
     has_list_field tpl (lit ''discovery_rules'') \<and>
     list_all drule_ok (list_field tpl (lit ''discovery_rules''))"

text \<open>
  A document as the data model has it, every field and every collection optional.
\<close>

definition document_ok :: "yval \<Rightarrow> bool" where
  "document_ok data =
     (case data of
        YDict d \<Rightarrow>
          (case dict_get d (lit ''zabbix_export'') (YDict []) of
             YDict e \<Rightarrow>
               has_list_field (YDict e) (lit ''templates'') \<and>
               list_all template_ok (list_field (YDict e) (lit ''templates''))
           | _ \<Rightarrow> False)
      | _ \<Rightarrow> False)"

text \<open>The fields of a record, each under the key it is read from.\<close>

definition item_fields :: "item_record \<Rightarrow> (pystr \<times> yval) list" where
  "item_fields r =
     [(lit ''name'', i_name r), (lit ''key'', i_key r), (lit ''type'', i_type r),
      (lit ''value_type'', i_value_type r), (lit ''units'', i_units r),
      (lit ''description'', i_description r)]"

definition macro_fields :: "macro_record \<Rightarrow> (pystr \<times> yval) list" where
  "macro_fields r =
     [(lit ''macro'', m_macro r), (lit ''value'', m_value r),
      (lit ''description'', m_description r)]"

definition trigger_fields :: "trigger_record \<Rightarrow> (pystr \<times> yval) list" where
  "trigger_fields r =
     [(lit ''name'', t_name r), (lit ''expression'', t_expression r),
      (lit ''priority'', t_priority r), (lit ''description'', t_description r)]"

definition drule_fields :: "drule_record \<Rightarrow> (pystr \<times> yval) list" where
  "drule_fields r =
     [(lit ''name'', d_name r), (lit ''key'', d_key r), (lit ''description'', d_description r)]"

text \<open>The keys read for the cells of a prototype row, in cell order.\<close>

definition item_keys :: "pystr list" where
  "item_keys =
     map lit [''name'', ''key'', ''type'', ''value_type'', ''units'', ''description'']"

definition trigger_keys :: "pystr list" where
  "trigger_keys = map lit [''name'', ''expression'', ''priority'', ''description'']"

text \<open>
  Three environments: a provider that answers every text with the text itself and one that
  fails on every text, each with a standard output that takes every line, and the failing
  provider with a standard output that encodes ASCII only.
\<close>

definition echo_env :: env where
  "echo_env = \<lparr>translate = (\<lambda>t. Inr t), stdout = (\<lambda>line. None)\<rparr>"

definition failing_env :: env where
  "failing_env =
     \<lparr>translate = (\<lambda>t. Inl (Exception (lit ''timeout''))), stdout = (\<lambda>line. None)\<rparr>"

definition ascii_env :: env where
  "ascii_env =
     \<lparr>translate = (\<lambda>t. Inl (Exception (lit ''timeout''))),
      stdout = (\<lambda>line. if list_all (\<lambda>c. c < 128) line then None else Some UnicodeEncodeError)\<rparr>"

text \<open>The mapping has no entry under the key.\<close>

definition absent :: "(yval \<times> yval) list \<Rightarrow> pystr \<Rightarrow> bool" where
  "absent d k \<longleftrightarrow> map_of d (YStr k) = None"

text \<open>
  A document with one template that has no name and no description, and whose item,
  macro, discovery rule and item prototype have no field at all.
\<close>

definition sparse_document :: yval where
  "sparse_document =
     YDict [(YStr (lit ''zabbix_export''),
       YDict [(YStr (lit ''templates''),
         YList [YDict [
           (YStr (lit ''items''), YList [YDict []]),
           (YStr (lit ''macros''), YList [YDict []]),
           (YStr (lit ''discovery_rules''),
              YList [YDict [(YStr (lit ''item_prototypes''), YList [YDict []])]])]])])]"

text \<open>The collection is absent or the empty sequence.\<close>

definition no_entries :: "yval \<Rightarrow> pystr \<Rightarrow> bool" where
  "no_entries obj k \<longleftrightarrow> has_list_field obj k \<and> list_field obj k = []"

text \<open>A template with no item, no trigger, no macro and no discovery rule.\<close>

definition empty_template :: "yval \<Rightarrow> bool" where
  "empty_template tpl \<longleftrightarrow>
     no_entries tpl (lit ''items'') \<and> no_entries tpl (lit ''triggers'') \<and>
     no_entries tpl (lit ''macros'') \<and> no_entries tpl (lit ''discovery_rules'')"

section \<open>Basic facts\<close>

lemma bind_return [simp]: "bind_io (return_io x) f = f x"
  by (simp add: bind_io_def return_io_def)

lemma bind_lift_Inr [simp]: "bind_io (lift_io (Inr x)) f = f x"
  by (simp add: bind_io_def lift_io_def)

lemma bind_lift_Inl [simp]: "bind_io (lift_io (Inl e)) f = (Inl e, [])"
  by (simp add: bind_io_def lift_io_def)

lemma bind_pair_Inr [simp]: "bind_io (Inr x, l) f = (fst (f x), l @ snd (f x))"
  by (simp add: bind_io_def)

lemma bind_pair_Inl [simp]: "bind_io (Inl e, l) f = (Inl e, l)"
  by (simp add: bind_io_def)

lemma fst_bind_Inr:
  "fst (bind_io m f) = Inr y \<longleftrightarrow> (\<exists>x. fst m = Inr x \<and> fst (f x) = Inr y)"
  by (cases "fst m") (simp_all add: bind_io_def)

lemma py_get_dict [simp]: "py_get (YDict d) k dflt = Inr (dict_get d k dflt)"
  by (simp add: py_get_def)

lemma py_get_not_dict: "\<not> is_dict obj \<Longrightarrow> py_get obj k dflt = Inl AttributeError"
  by (cases obj) (simp_all add: py_get_def is_dict_def)

lemma py_iter_list [simp]: "py_iter (YList xs) = Inr xs"
  by (simp add: py_iter_def)

lemma dual_description_off [simp]: "dual_description env text False = return_io text"
  by (simp add: dual_description_def)

section \<open>Properties of the augmenter\<close>

lemma strip_blank: "\<forall>c \<in> set s. is_space c \<Longrightarrow> py_strip s = []"
proof -
  assume blank: "\<forall>c \<in> set s. is_space c"
  then have d: "dropWhile is_space s = []"
    by (induction s) simp_all
  show ?thesis
    unfolding py_strip_def d by simp
qed

text \<open>
  C8. With the flag off the augmenter returns its input unchanged, whatever the input
  is, and with the flag on it returns an empty or whitespace-only text unchanged; in both
  cases the trace of the call is empty, so the provider is not called.
\<close>

theorem dual_description_unchanged:
  "dual_description env text False = (Inr text, []) \<and>
   ((\<forall>c \<in> set s. is_space c) \<longrightarrow> dual_description env (YStr s) True = (Inr (YStr s), []))"
  by (simp add: dual_description_def return_io_def strip_blank)

theorem dual_description_unchanged_witness:
  "dual_description echo_env (YStr (lit ''ab'')) False = (Inr (YStr (lit ''ab'')), []) \<and>
   dual_description echo_env (YStr [32, 9, newline]) True = (Inr (YStr [32, 9, newline]), [])"
proof -
  have blank: "\<forall>c \<in> set [32, 9, newline]. is_space c"
    by (simp add: is_space_def)
  show ?thesis
    using dual_description_unchanged [of echo_env "YStr (lit ''ab'')" "[32, 9, newline]"] blank
    by simp
qed

text \<open>
  What the augmenter does when the provider fails: if it called the provider (flag on,
  text not blank) it writes the diagnostic line and returns the text it was given, unless
  writing the line raises; otherwise it returns the text and the trace is empty.
\<close>

lemma dual_description_provider_failure:
  "translate env s = Inl (Exception m) \<Longrightarrow>
   dual_description env (YStr s) do_translate =
     (if do_translate \<and> py_strip s \<noteq> [] then
        (case stdout env (error_prefix @ m) of
           None \<Rightarrow> (Inr (YStr s), [Translate s, Print (error_prefix @ m)])
         | Some e \<Rightarrow> (Inl e, [Translate s]))
      else (Inr (YStr s), []))"
  by (simp add: dual_description_def return_io_def)

text \<open>
  C4. The augmenter does raise after a failure of the provider when the diagnostic line
  cannot be written: the \<^verbatim>\<open>print\<close> of the handler is not guarded. With the flag on,
  the text \<^verbatim>\<open>ab\<close>, a provider that raises and a standard output that encodes ASCII
  only, the Cyrillic line raises \<^verbatim>\<open>UnicodeEncodeError\<close> and the text is not returned.
\<close>

theorem dual_description_print_failure:
  "dual_description ascii_env (YStr (lit ''ab'')) True =
     (Inl UnicodeEncodeError, [Translate (lit ''ab'')])"
proof -
  have t: "translate ascii_env (lit ''ab'') = Inl (Exception (lit ''timeout''))"
    by (simp add: ascii_env_def)
  have s: "py_strip (lit ''ab'') \<noteq> []"
    by (simp add: py_strip_def is_space_def lit_def)
  have o: "stdout ascii_env (error_prefix @ lit ''timeout'') = Some UnicodeEncodeError"
    by (simp add: ascii_env_def error_prefix_def)
  from dual_description_provider_failure [OF t, of True] s o show ?thesis
    by simp
qed

section \<open>Properties of the sanitizer\<close>

lemma lit_br: "lit ''<br>'' = [60, 98, 114, 62]"
  by (simp add: lit_def)

lemma py_replace_char:
  "py_replace [c] new s = concat (map (\<lambda>x. if x = c then new else [x]) s)"
  by (induction s) simp_all

lemma sanitize_concat: "sanitize_description t = concat (map cell_escape t)"
  by (induction t) (simp_all add: sanitize_description_def py_replace_char cell_escape_def lit_br)

lemma sanitize_Nil: "sanitize_description [] = []"
  by (simp add: sanitize_concat)

lemma sanitize_Cons: "sanitize_description (c # cs) = cell_escape c @ sanitize_description cs"
  by (simp add: sanitize_concat)

lemma sanitize_no_newline: "newline \<notin> set (sanitize_description t)"
  by (induction t) (simp_all add: sanitize_Nil sanitize_Cons cell_escape_def lit_br)

lemma bars_after_sanitize:
  "bars_after P k (sanitize_description t) = bars_after (\<lambda>j. P (Suc j)) k t"
  by (induction t arbitrary: k) (simp_all add: sanitize_Nil sanitize_Cons cell_escape_def lit_br)

lemma bars_after_True: "bars_after (\<lambda>j. True) k t"
  by (induction t arbitrary: k) simp_all

lemma bars_after_index:
  "bars_after P k s \<Longrightarrow> i < length s \<Longrightarrow> s ! i = bar \<Longrightarrow>
   P 0 \<or> (if i = 0 then 0 < k else s ! (i - 1) = backslash)"
proof (induction s arbitrary: k i)
  case Nil
  then show ?case by simp
next
  case (Cons c cs)
  show ?case
  proof (cases i)
    case 0
    with Cons.prems show ?thesis by (cases k) auto
  next
    case (Suc j)
    with Cons.prems Cons.IH [of _ j] show ?thesis
      by (cases j) (auto split: if_splits)
  qed
qed

lemma sanitize_bar_index:
  assumes "i < length (sanitize_description t)" and "sanitize_description t ! i = bar"
  shows "0 < i \<and> sanitize_description t ! (i - 1) = backslash"
proof -
  have "bars_after (\<lambda>k. 1 \<le> k) 0 (sanitize_description t)"
    by (simp add: bars_after_sanitize bars_after_True)
  from bars_after_index [OF this assms] show ?thesis
    by (cases "i = 0") simp_all
qed

lemma count_sanitize_bar:
  "count_list (sanitize_description t) bar = count_list t bar"
  by (induction t) (simp_all add: sanitize_Nil sanitize_Cons cell_escape_def lit_br)

lemma count_sanitize_backslash:
  "count_list (sanitize_description t) backslash = count_list t backslash + count_list t bar"
  by (induction t) (simp_all add: sanitize_Nil sanitize_Cons cell_escape_def lit_br)

text \<open>
  C3, as stated, at a delimiter that already follows a backslash: the sanitizer turns
  backslash, delimiter into backslash, backslash, delimiter, so the delimiter is preceded
  by two backslashes and not by exactly one.
\<close>

theorem sanitize_escaped_once_counterexample:
  "sanitize_description [backslash, bar] = [backslash, backslash, bar] \<and>
   \<not> escaped_once (sanitize_description [backslash, bar])"
  by (simp add: sanitize_Nil sanitize_Cons cell_escape_def escaped_once_def)

text \<open>
  C3, amended. The sanitizer replaces each line break with the inline break marker and
  puts one backslash in front of each column delimiter, altering no other code point,
  backslashes included. So the result has no raw line break, the same number of
  delimiters as the text and one more backslash per delimiter, and every delimiter of the
  result stands immediately after a backslash. The delimiters of the result are preceded
  by exactly one backslash precisely when no delimiter of the text follows a backslash.
\<close>

theorem sanitize_description_escapes:
  "sanitize_description t = concat (map cell_escape t) \<and>
   newline \<notin> set (sanitize_description t) \<and>
   count_list (sanitize_description t) bar = count_list t bar \<and>
   count_list (sanitize_description t) backslash = count_list t backslash + count_list t bar \<and>
   (\<forall>i < length (sanitize_description t).
      sanitize_description t ! i = bar \<longrightarrow>
      0 < i \<and> sanitize_description t ! (i - 1) = backslash) \<and>
   (escaped_once (sanitize_description t) \<longleftrightarrow> bare_bars t)"
proof -
  have "escaped_once (sanitize_description t) \<longleftrightarrow> bare_bars t"
    by (simp add: escaped_once_def bare_bars_def bars_after_sanitize)
  then show ?thesis
    using sanitize_concat [of t] sanitize_no_newline [of t] count_sanitize_bar [of t]
      count_sanitize_backslash [of t] sanitize_bar_index [of _ t]
    by blast
qed

theorem sanitize_description_escapes_witness:
  "sanitize_description [97, bar, newline, 98] = [97, backslash, bar, 60, 98, 114, 62, 98] \<and>
   sanitize_description [97, bar, newline, 98] ! 2 = bar \<and>
   sanitize_description [97, bar, newline, 98] ! (2 - 1) = backslash \<and>
   bare_bars [97, bar, newline, 98] \<and>
   escaped_once (sanitize_description [97, bar, newline, 98])"
  using sanitize_description_escapes [of "[97, bar, newline, 98]"]
  by (simp add: cell_escape_def lit_br bare_bars_def escaped_once_def)


section \<open>Properties of the table renderer\<close>

lemma texts_of_map_YStr [simp]: "texts_of (map YStr ts) = Some ts"
  by (induction ts) simp_all

lemma foldl_append_concat:
  "foldl (\<lambda>acc x. acc @ g x) acc xs = acc @ concat (map g xs)"
  by (induction xs arbitrary: acc) simp_all

lemma render_cell_fun: "render_cell rp = (\<lambda>cell. sanitize_description (py_str rp cell))"
  by (rule ext) (simp add: render_cell_def)

lemma markdown_table_unlines:
  "markdown_table rp (map YStr hs) rows = Inr (unlines (table_rows rp hs rows))"
proof -
  have "foldl (\<lambda>table row. table @ lit ''| '' @
           join (lit '' | '') (map (\<lambda>cell. sanitize_description (py_str rp cell)) row) @
           lit '' |'' @ [newline]) acc rows
        = acc @ concat (map (\<lambda>row. table_row (map (render_cell rp) row) @ [newline]) rows)" for acc
    using foldl_append_concat [of "\<lambda>row. table_row (map (render_cell rp) row) @ [newline]" acc rows]
    by (simp add: table_row_def render_cell_fun)
  then show ?thesis
    by (simp add: markdown_table_def py_join_def unlines_def table_rows_def table_row_def comp_def)
qed

lemma split_lines_line:
  "newline \<notin> set l \<Longrightarrow> split_lines (l @ newline # rest) = l # split_lines rest"
  by (induction l) simp_all

lemma split_lines_unlines:
  "\<forall>l \<in> set ls. newline \<notin> set l \<Longrightarrow> split_lines (unlines ls) = ls"
  by (induction ls) (simp_all add: unlines_def split_lines_line)

lemma join_no_newline:
  "newline \<notin> set sep \<Longrightarrow> \<forall>c \<in> set cs. newline \<notin> set c \<Longrightarrow> newline \<notin> set (join sep cs)"
  by (induction sep cs rule: join.induct) simp_all

lemma lit_sep: "lit '' | '' = [32, bar, 32]" "lit ''| '' = [bar, 32]" "lit '' |'' = [32, bar]"
  "lit ''---'' = [45, 45, 45]"
  by (simp_all add: lit_def)

lemma table_row_no_newline:
  "\<forall>c \<in> set cs. newline \<notin> set c \<Longrightarrow> newline \<notin> set (table_row cs)"
  using join_no_newline [of "[32, bar, 32]" cs] by (simp add: table_row_def lit_sep)

lemma render_cell_no_newline: "newline \<notin> set (render_cell rp cell)"
  by (simp add: render_cell_def sanitize_no_newline)

lemma table_rows_no_newline:
  assumes "\<forall>h \<in> set hs. newline \<notin> set h"
  shows "\<forall>l \<in> set (table_rows rp hs rows). newline \<notin> set l"
proof -
  have "newline \<notin> set (table_row (replicate (length hs) (lit ''---'')))"
    by (rule table_row_no_newline) (simp add: lit_sep)
  moreover have "newline \<notin> set (table_row (map (render_cell rp) row))" for row
    by (rule table_row_no_newline) (simp add: render_cell_no_newline)
  ultimately show ?thesis
    using assms by (auto simp: table_rows_def table_row_no_newline)
qed







text \<open>
  C6. For a list of header texts and any list of records, the renderer returns the
  header row, then the separator row, which has one group of three dashes per header
  and depends on nothing else, then one row per record in order, every cell coerced to
  text and sanitized before it is placed between delimiters; each row is one line of the
  result when no header holds a line break.
\<close>

theorem markdown_table_rows:
  "markdown_table rp (map YStr hs) rows = Inr (unlines (table_rows rp hs rows)) \<and>
   length (table_rows rp hs rows) = 2 + length rows \<and>
   ((\<forall>h \<in> set hs. newline \<notin> set h) \<longrightarrow>
      split_lines (unlines (table_rows rp hs rows)) = table_rows rp hs rows)"
  using markdown_table_unlines [of rp hs rows] table_rows_no_newline [of hs rp rows]
  by (simp add: split_lines_unlines) (simp add: table_rows_def)



theorem markdown_table_rows_witness:
  "markdown_table (\<lambda>v. []) (map YStr [lit ''A'', lit ''B'']) [[YInt 1, YStr [97, bar, 98]]] =
     Inr (lit ''| A | B |'' @ [newline] @ lit ''| --- | --- |'' @ [newline] @
          lit ''| 1 | a'' @ [backslash] @ lit ''|b |'' @ [newline]) \<and>
   split_lines (unlines (table_rows (\<lambda>v. []) [lit ''A'', lit ''B''] [[YInt 1, YStr [97, bar, 98]]])) =
     [lit ''| A | B |'', lit ''| --- | --- |'', lit ''| 1 | a'' @ [backslash] @ lit ''|b |'']"
  using markdown_table_rows [of "\<lambda>v. []" "[lit ''A'', lit ''B'']" "[[YInt 1, YStr [97, bar, 98]]]"]
  by (simp add: lit_def unlines_def table_rows_def table_row_def render_cell_def py_str_def
      digits.simps sanitize_Nil sanitize_Cons cell_escape_def)




section \<open>Properties of the trigger extractor\<close>

lemma bind_assoc: "bind_io (bind_io m f) g = bind_io m (\<lambda>x. bind_io (f x) g)"
proof (cases "fst m")
  case (Inl e)
  then show ?thesis by (simp add: bind_io_def)
next
  case (Inr x)
  then show ?thesis
    by (cases "fst (f x)") (simp_all add: bind_io_def)
qed

lemma bind_return_right [simp]: "bind_io m return_io = m"
  by (cases "fst m") (simp_all add: bind_io_def return_io_def prod_eq_iff)

lemma mapM_return:
  "\<forall>x \<in> set xs. f x = return_io (g x) \<Longrightarrow> mapM_io f xs = return_io (map g xs)"
  by (induction xs) simp_all

lemma mapM_append:
  "mapM_io f (xs @ ys) =
     bind_io (mapM_io f xs) (\<lambda>a. bind_io (mapM_io f ys) (\<lambda>b. return_io (a @ b)))"
  by (induction xs) (simp_all add: bind_assoc)

lemma mapM_concat:
  "bind_io (mapM_io (\<lambda>x. mapM_io g (h x)) xs) (\<lambda>r. return_io (concat r)) =
     mapM_io g (concat (map h xs))"
proof (induction xs)
  case Nil
  show ?case by simp
next
  case (Cons a xs)
  have "bind_io (mapM_io (\<lambda>x. mapM_io g (h x)) xs) (\<lambda>r. return_io (x @ concat r)) =
        bind_io (mapM_io g (concat (map h xs))) (\<lambda>b. return_io (x @ b))" for x
    unfolding Cons.IH [symmetric] by (simp add: bind_assoc)
  then show ?case
    by (simp add: bind_assoc mapM_append)
qed

lemma mapM_cong:
  "\<forall>x \<in> set xs. f x = g x \<Longrightarrow> mapM_io f xs = mapM_io g xs"
  by (induction xs) simp_all

lemma get_iter_list_field:
  "has_list_field obj k \<Longrightarrow>
   bind_io (lift_io (py_get obj k (YList []))) (\<lambda>coll. bind_io (lift_io (py_iter coll)) F) =
     F (list_field obj k)"
  by (auto simp: has_list_field_def list_field_def split: yval.splits)


lemma mapM_Inr:
  "fst (mapM_io f xs) = Inr ys \<longleftrightarrow> list_all2 (\<lambda>x y. fst (f x) = Inr y) xs ys"
proof (induction xs arbitrary: ys)
  case Nil
  show ?case by (auto simp: return_io_def)
next
  case (Cons x xs)
  show ?case
    by (auto simp: fst_bind_Inr Cons.IH return_io_def list_all2_Cons1)
qed

lemma item_triggers_shape:
  "has_list_field item (lit ''triggers'') \<Longrightarrow>
   item_triggers env do_translate item =
     mapM_io (trigger_entry env do_translate) (list_field item (lit ''triggers''))"
  unfolding item_triggers_def by (rule get_iter_list_field)

lemma extract_triggers_all:
  assumes "triggers_shape tpl"
  shows "extract_triggers env tpl do_translate =
           mapM_io (trigger_entry env do_translate) (all_triggers tpl)"
proof -
  let ?g = "trigger_entry env do_translate"
  let ?items = "list_field tpl (lit ''items'')"
  let ?top = "list_field tpl (lit ''triggers'')"
  from assms have items: "has_list_field tpl (lit ''items'')"
    and nested: "\<forall>item \<in> set ?items. has_list_field item (lit ''triggers'')"
    and top: "has_list_field tpl (lit ''triggers'')"
    by (simp_all add: triggers_shape_def list_all_iff)
  from nested have m: "mapM_io (item_triggers env do_translate) ?items =
      mapM_io (\<lambda>item. mapM_io ?g (list_field item (lit ''triggers''))) ?items"
    by (intro mapM_cong) (simp add: item_triggers_shape)
  have "extract_triggers env tpl do_translate =
      bind_io (mapM_io (item_triggers env do_translate) ?items) (\<lambda>nested.
      bind_io (mapM_io ?g ?top) (\<lambda>top. return_io (concat nested @ top)))"
    unfolding extract_triggers_def
    by (simp only: get_iter_list_field [OF items] get_iter_list_field [OF top])
  also have "\<dots> =
      bind_io (bind_io (mapM_io (\<lambda>item. mapM_io ?g (list_field item (lit ''triggers''))) ?items)
                 (\<lambda>r. return_io (concat r)))
        (\<lambda>a. bind_io (mapM_io ?g ?top) (\<lambda>b. return_io (a @ b)))"
    by (simp add: m bind_assoc)
  also have "\<dots> = mapM_io ?g (all_triggers tpl)"
    by (simp only: mapM_concat mapM_append all_triggers_def)
  finally show ?thesis .
qed

lemma trigger_entry_dict:
  "trigger_entry env do_translate (YDict d) =
     bind_io (dual_description env (dict_get d (lit ''description'') (YStr [])) do_translate)
       (\<lambda>description. return_io
          \<lparr>t_name = dict_get d (lit ''name'') (YStr []),
           t_expression = dict_get d (lit ''expression'') (YStr []),
           t_priority = dict_get d (lit ''priority'') (YStr []),
           t_description = description\<rparr>)"
  by (simp add: trigger_entry_def)

lemma trigger_entry_plain:
  "is_dict t \<Longrightarrow> trigger_entry env False t = return_io (plain_trigger t)"
  by (cases t) (simp_all add: is_dict_def trigger_entry_dict plain_trigger_def field_def)

text \<open>
  C2. For a template whose item list, nested trigger lists and trigger list are sequences
  (or absent), the trigger extractor returns exactly one record per trigger occurrence, the
  occurrences nested in items first, in item order and nested order, then the template's
  own in declared order, none removed: the records it returns are, position by position,
  the records of these occurrences. With the flag off and every occurrence a mapping it
  returns them without any effect.
\<close>

theorem extract_triggers_order:
  assumes "triggers_shape tpl"
  shows "(fst (extract_triggers env tpl do_translate) = Inr recs \<longleftrightarrow>
            list_all2 (\<lambda>t r. fst (trigger_entry env do_translate t) = Inr r) (all_triggers tpl) recs) \<and>
         (list_all is_dict (all_triggers tpl) \<longrightarrow>
            extract_triggers env tpl False = (Inr (map plain_trigger (all_triggers tpl)), []))"
proof -
  have "extract_triggers env tpl False = (Inr (map plain_trigger (all_triggers tpl)), [])"
    if "list_all is_dict (all_triggers tpl)"
  proof -
    from that have "mapM_io (trigger_entry env False) (all_triggers tpl) =
        return_io (map plain_trigger (all_triggers tpl))"
      by (intro mapM_return) (simp add: list_all_iff trigger_entry_plain)
    then show ?thesis
      by (simp add: extract_triggers_all [OF assms] return_io_def)
  qed
  then show ?thesis
    by (simp add: extract_triggers_all [OF assms] mapM_Inr)
qed


theorem extract_triggers_order_witness:
  "triggers_shape
     (YDict [(YStr (lit ''items''),
                YList [YDict [(YStr (lit ''triggers''), YList [YDict [(YStr (lit ''name''), YStr (lit ''nested''))]])]]),
             (YStr (lit ''triggers''), YList [YDict [(YStr (lit ''name''), YStr (lit ''top''))]])]) \<and>
   extract_triggers echo_env
     (YDict [(YStr (lit ''items''),
                YList [YDict [(YStr (lit ''triggers''), YList [YDict [(YStr (lit ''name''), YStr (lit ''nested''))]])]]),
             (YStr (lit ''triggers''), YList [YDict [(YStr (lit ''name''), YStr (lit ''top''))]])])
     False =
     (Inr [\<lparr>t_name = YStr (lit ''nested''), t_expression = YStr [], t_priority = YStr [],
             t_description = YStr []\<rparr>,
           \<lparr>t_name = YStr (lit ''top''), t_expression = YStr [], t_priority = YStr [],
             t_description = YStr []\<rparr>], [])"
proof -
  let ?tpl = "YDict [(YStr (lit ''items''),
                YList [YDict [(YStr (lit ''triggers''), YList [YDict [(YStr (lit ''name''), YStr (lit ''nested''))]])]]),
             (YStr (lit ''triggers''), YList [YDict [(YStr (lit ''name''), YStr (lit ''top''))]])]"
  have shape: "triggers_shape ?tpl"
    by (simp add: triggers_shape_def has_list_field_def list_field_def dict_get_def lit_def)
  have all: "all_triggers ?tpl =
      [YDict [(YStr (lit ''name''), YStr (lit ''nested''))], YDict [(YStr (lit ''name''), YStr (lit ''top''))]]"
    by (simp add: all_triggers_def list_field_def dict_get_def lit_def)
  from extract_triggers_order [OF shape, of echo_env False "[]"] shape show ?thesis
    by (simp add: all is_dict_def plain_trigger_def field_def dict_get_def) (simp add: lit_def)
qed


section \<open>Properties of the item extractor\<close>

lemma item_entry_dict:
  "item_entry env do_translate (YDict d) =
     bind_io (dual_description env (dict_get d (lit ''description'') (YStr [])) do_translate)
       (\<lambda>description. return_io
          \<lparr>i_name = dict_get d (lit ''name'') (YStr []),
           i_key = dict_get d (lit ''key'') (YStr []),
           i_type = dict_get d (lit ''type'') (YStr []),
           i_value_type = dict_get d (lit ''value_type'') (YStr []),
           i_units = dict_get d (lit ''units'') (YStr []),
           i_description = description\<rparr>)"
  by (simp add: item_entry_def)

lemma item_entry_not_dict:
  "\<not> is_dict item \<Longrightarrow> item_entry env do_translate item = (Inl AttributeError, [])"
  by (simp add: item_entry_def py_get_not_dict)

lemma item_prototype_row_dict:
  "item_prototype_row rp env do_translate (YDict d) =
     bind_io (dual_description env (dict_get d (lit ''description'') (YStr [])) do_translate)
       (\<lambda>description. return_io
          [dict_get d (lit ''name'') (YStr []), dict_get d (lit ''key'') (YStr []),
           YStr (py_str rp (dict_get d (lit ''type'') (YStr []))),
           YStr (py_str rp (dict_get d (lit ''value_type'') (YStr []))),
           dict_get d (lit ''units'') (YStr []), description])"
  by (simp add: item_prototype_row_def)

lemma item_prototype_row_not_dict:
  "\<not> is_dict ip \<Longrightarrow> item_prototype_row rp env do_translate ip = (Inl AttributeError, [])"
  by (simp add: item_prototype_row_def py_get_not_dict)

text \<open>
  C5, as stated, at an item whose type is the integer 3: the record the item extractor
  builds holds the integer, not its text.
\<close>

theorem extract_items_type_counterexample:
  "fst (extract_items echo_env
          (YDict [(YStr (lit ''items''), YList [YDict [(YStr (lit ''type''), YInt 3)]])]) False) =
     Inr [\<lparr>i_name = YStr [], i_key = YStr [], i_type = YInt 3, i_value_type = YStr [],
            i_units = YStr [], i_description = YStr []\<rparr>]"
  by (simp add: extract_items_def item_entry_dict dict_get_def return_io_def lit_def)

text \<open>
  C5, amended. The item extractor copies the type and value type of an item into the
  record as they are, without coercion. They are coerced to text by \<^verbatim>\<open>str\<close> when the
  assembler builds the table row from the record, and the rows of an item-prototype table
  are built with both already coerced: the coercion is explicit and comes before the
  renderer is called.
\<close>

theorem item_type_coercion:
  "(fst (item_entry env do_translate item) = Inr r \<longrightarrow>
      i_type r = field item (lit ''type'') \<and>
      i_value_type r = field item (lit ''value_type'') \<and>
      item_row rp r ! 2 = YStr (py_str rp (field item (lit ''type''))) \<and>
      item_row rp r ! 3 = YStr (py_str rp (field item (lit ''value_type'')))) \<and>
   (fst (item_prototype_row rp env do_translate ip) = Inr row \<longrightarrow>
      row ! 2 = YStr (py_str rp (field ip (lit ''type''))) \<and>
      row ! 3 = YStr (py_str rp (field ip (lit ''value_type''))))"
proof -
  have a: "i_type r = field item (lit ''type'') \<and>
      i_value_type r = field item (lit ''value_type'') \<and>
      item_row rp r ! 2 = YStr (py_str rp (field item (lit ''type''))) \<and>
      item_row rp r ! 3 = YStr (py_str rp (field item (lit ''value_type'')))"
    if "fst (item_entry env do_translate item) = Inr r"
  proof (cases "is_dict item")
    case True
    then obtain d where "item = YDict d"
      by (cases item) (simp_all add: is_dict_def)
    with that show ?thesis
      by (auto simp: item_entry_dict fst_bind_Inr return_io_def field_def item_row_def
          eval_nat_numeral)
  next
    case False
    with that show ?thesis by (simp add: item_entry_not_dict)
  qed
  have b: "row ! 2 = YStr (py_str rp (field ip (lit ''type''))) \<and>
      row ! 3 = YStr (py_str rp (field ip (lit ''value_type'')))"
    if "fst (item_prototype_row rp env do_translate ip) = Inr row"
  proof (cases "is_dict ip")
    case True
    then obtain d where "ip = YDict d"
      by (cases ip) (simp_all add: is_dict_def)
    with that show ?thesis
      by (auto simp: item_prototype_row_dict fst_bind_Inr return_io_def field_def eval_nat_numeral)
  next
    case False
    with that show ?thesis by (simp add: item_prototype_row_not_dict)
  qed
  from a b show ?thesis by blast
qed

theorem item_type_coercion_witness:
  "fst (item_entry echo_env False (YDict [(YStr (lit ''type''), YInt 3)])) =
     Inr \<lparr>i_name = YStr [], i_key = YStr [], i_type = YInt 3, i_value_type = YStr [],
          i_units = YStr [], i_description = YStr []\<rparr> \<and>
   item_row (\<lambda>v. [])
     \<lparr>i_name = YStr [], i_key = YStr [], i_type = YInt 3, i_value_type = YStr [],
      i_units = YStr [], i_description = YStr []\<rparr> ! 2 = YStr (lit ''3'') \<and>
   fst (item_prototype_row (\<lambda>v. []) echo_env False (YDict [(YStr (lit ''type''), YInt 3)])) =
     Inr [YStr [], YStr [], YStr (lit ''3''), YStr [], YStr [], YStr []] \<and>
   [YStr [], YStr [], YStr (lit ''3''), YStr [], YStr [], YStr []] ! 2 = YStr (lit ''3'')"
proof -
  have e: "fst (item_entry echo_env False (YDict [(YStr (lit ''type''), YInt 3)])) =
     Inr \<lparr>i_name = YStr [], i_key = YStr [], i_type = YInt 3, i_value_type = YStr [],
          i_units = YStr [], i_description = YStr []\<rparr>"
    by (simp add: item_entry_dict dict_get_def return_io_def lit_def)
  have p: "fst (item_prototype_row (\<lambda>v. []) echo_env False (YDict [(YStr (lit ''type''), YInt 3)])) =
     Inr [YStr [], YStr [], YStr (lit ''3''), YStr [], YStr [], YStr []]"
    by (simp add: item_prototype_row_dict dict_get_def return_io_def py_str_def digits.simps lit_def)
  from item_type_coercion
    [of echo_env False "YDict [(YStr (lit ''type''), YInt 3)]"
      "\<lparr>i_name = YStr [], i_key = YStr [], i_type = YInt 3, i_value_type = YStr [],
          i_units = YStr [], i_description = YStr []\<rparr>" "\<lambda>v. []"
      "YDict [(YStr (lit ''type''), YInt 3)]"
      "[YStr [], YStr [], YStr (lit ''3''), YStr [], YStr [], YStr []]"] e p
  show ?thesis
    by (simp add: field_def dict_get_def py_str_def digits.simps)
qed


section \<open>Rendering without augmentation\<close>

lemma quiet_return: "quiet (return_io x)"
  by (simp add: quiet_def return_io_def)

lemma quiet_lift: "quiet (lift_io r)"
  by (simp add: quiet_def lift_io_def)

lemma quiet_bind: "quiet m \<Longrightarrow> (\<And>x. quiet (f x)) \<Longrightarrow> quiet (bind_io m f)"
  by (cases "fst m") (simp_all add: quiet_def bind_io_def)

lemma quiet_mapM: "(\<And>x. quiet (f x)) \<Longrightarrow> quiet (mapM_io f xs)"
  by (induction xs) (simp_all add: quiet_return quiet_bind)

lemma quiet_if: "quiet a \<Longrightarrow> quiet b \<Longrightarrow> quiet (if c then a else b)"
  by simp

lemma quiet_dual_off: "quiet (dual_description env text False)"
  by (simp add: quiet_return)

lemmas quiet_intros = quiet_bind quiet_mapM quiet_if quiet_return quiet_lift quiet_dual_off

lemma quiet_item_entry: "quiet (item_entry env False item)"
  unfolding item_entry_def by (intro quiet_intros)

lemma quiet_macro_entry: "quiet (macro_entry env False m)"
  unfolding macro_entry_def by (intro quiet_intros)

lemma quiet_trigger_entry: "quiet (trigger_entry env False t)"
  unfolding trigger_entry_def by (intro quiet_intros)

lemma quiet_drule_entry: "quiet (drule_entry env False d)"
  unfolding drule_entry_def by (intro quiet_intros)

lemma quiet_item_prototype_row: "quiet (item_prototype_row rp env False ip)"
  unfolding item_prototype_row_def by (intro quiet_intros)

lemma quiet_trigger_prototype_row: "quiet (trigger_prototype_row env False tp)"
  unfolding trigger_prototype_row_def by (intro quiet_intros)

lemmas quiet_entries = quiet_item_entry quiet_macro_entry quiet_trigger_entry quiet_drule_entry
  quiet_item_prototype_row quiet_trigger_prototype_row

lemma quiet_item_triggers: "quiet (item_triggers env False item)"
  unfolding item_triggers_def by (intro quiet_intros quiet_entries)

lemma quiet_extract_items: "quiet (extract_items env tpl False)"
  unfolding extract_items_def by (intro quiet_intros quiet_entries)

lemma quiet_extract_macros: "quiet (extract_macros env tpl False)"
  unfolding extract_macros_def by (intro quiet_intros quiet_entries)

lemma quiet_extract_triggers: "quiet (extract_triggers env tpl False)"
  unfolding extract_triggers_def by (intro quiet_intros quiet_entries quiet_item_triggers)

lemma quiet_extract_discovery_rules: "quiet (extract_discovery_rules env tpl False)"
  unfolding extract_discovery_rules_def by (intro quiet_intros quiet_entries)

lemmas quiet_extractors = quiet_extract_items quiet_extract_macros quiet_extract_triggers
  quiet_extract_discovery_rules

lemma quiet_template_md: "quiet (template_md rp env False tpl)"
  unfolding template_md_def title_md_def description_md_def items_section_def
    triggers_section_def macros_section_def discovery_section_def prototypes_md_def
    item_prototypes_md_def trigger_prototypes_md_def
  by (intro quiet_intros quiet_entries quiet_extractors)

lemma quiet_main_md_output: "quiet (main_md_output rp env data False)"
  unfolding main_md_output_def by (intro quiet_intros quiet_template_md)

lemma item_entry_provider: "item_entry env False = item_entry env' False"
  by (rule ext) (simp add: item_entry_def)

lemma macro_entry_provider: "macro_entry env False = macro_entry env' False"
  by (rule ext) (simp add: macro_entry_def)

lemma trigger_entry_provider: "trigger_entry env False = trigger_entry env' False"
  by (rule ext) (simp add: trigger_entry_def)

lemma drule_entry_provider: "drule_entry env False = drule_entry env' False"
  by (rule ext) (simp add: drule_entry_def)

lemma item_prototype_row_provider:
  "item_prototype_row rp env False = item_prototype_row rp env' False"
  by (rule ext) (simp add: item_prototype_row_def)

lemma trigger_prototype_row_provider:
  "trigger_prototype_row env False = trigger_prototype_row env' False"
  by (rule ext) (simp add: trigger_prototype_row_def)

lemma item_triggers_provider: "item_triggers env False = item_triggers env' False"
  by (rule ext) (simp add: item_triggers_def trigger_entry_provider [of env env'])

lemma extract_items_provider: "extract_items env tpl False = extract_items env' tpl False"
  by (simp add: extract_items_def item_entry_provider [of env env'])

lemma extract_macros_provider: "extract_macros env tpl False = extract_macros env' tpl False"
  by (simp add: extract_macros_def macro_entry_provider [of env env'])

lemma extract_triggers_provider: "extract_triggers env tpl False = extract_triggers env' tpl False"
  by (simp add: extract_triggers_def trigger_entry_provider [of env env']
      item_triggers_provider [of env env'])

lemma extract_discovery_rules_provider:
  "extract_discovery_rules env tpl False = extract_discovery_rules env' tpl False"
  by (simp add: extract_discovery_rules_def drule_entry_provider [of env env'])

lemma prototypes_md_provider: "prototypes_md rp env False = prototypes_md rp env' False"
proof (rule ext)
  fix dr
  show "prototypes_md rp env False dr = prototypes_md rp env' False dr"
    unfolding prototypes_md_def item_prototypes_md_def trigger_prototypes_md_def
      item_prototype_row_provider [of rp env env'] trigger_prototype_row_provider [of env env']
    by (rule refl)
qed

lemma template_md_provider: "template_md rp env False = template_md rp env' False"
proof (rule ext)
  fix tpl
  show "template_md rp env False tpl = template_md rp env' False tpl"
    unfolding template_md_def description_md_def items_section_def triggers_section_def
      macros_section_def discovery_section_def dual_description_off
      extract_items_provider [of env tpl env'] extract_macros_provider [of env tpl env']
      extract_triggers_provider [of env tpl env']
      extract_discovery_rules_provider [of env tpl env'] prototypes_md_provider [of rp env env']
    by (rule refl)
qed

text \<open>
  C9. With augmentation off the text rendered for a parsed document does not depend on
  the translation provider nor on standard output, the only parts of a run that are not
  a function of the document, and the run calls no provider and prints no diagnostic: two
  renderings of the same document give the same text.
\<close>

theorem main_md_output_deterministic:
  "main_md_output rp env data False = main_md_output rp env' data False \<and>
   snd (main_md_output rp env data False) = []"
  using quiet_main_md_output [of rp env data]
  by (simp add: main_md_output_def template_md_provider [of rp env env'] quiet_def)


section \<open>Missing fields and collections\<close>

lemma tolerant_Inl:
  "tolerant env do_translate m \<Longrightarrow> fst m = Inl e \<Longrightarrow>
   do_translate \<and> (\<exists>line. stdout env line = Some e)"
  by (simp add: tolerant_def)

lemma tolerant_Inr:
  "tolerant env do_translate m \<Longrightarrow> \<not> do_translate \<or> (\<forall>line. stdout env line = None) \<Longrightarrow>
   \<exists>x. fst m = Inr x"
  by (cases "fst m") (auto simp: tolerant_def)

lemma tolerant_return: "tolerant env do_translate (return_io x)"
  by (simp add: tolerant_def return_io_def)

lemma tolerant_lift: "tolerant env do_translate (lift_io (Inr x))"
  by (simp add: tolerant_def lift_io_def)

lemma tolerant_bind:
  "tolerant env do_translate m \<Longrightarrow> (\<And>x. fst m = Inr x \<Longrightarrow> tolerant env do_translate (f x)) \<Longrightarrow> tolerant env do_translate (bind_io m f)"
  by (cases "fst m") (simp_all add: tolerant_def bind_io_def)

lemma tolerant_mapM: "(\<And>x. x \<in> set xs \<Longrightarrow> tolerant env do_translate (f x)) \<Longrightarrow> tolerant env do_translate (mapM_io f xs)"
  by (induction xs) (simp_all add: tolerant_return tolerant_bind)

lemma tolerant_if: "tolerant env do_translate a \<Longrightarrow> tolerant env do_translate b \<Longrightarrow> tolerant env do_translate (if c then a else b)"
  by simp

lemma dual_description_text:
  "fst (dual_description env (YStr s) do_translate) = Inr aug \<Longrightarrow> \<exists>s'. aug = YStr s'"
proof (cases "translate env s")
  case (Inl e)
  then show "fst (dual_description env (YStr s) do_translate) = Inr aug \<Longrightarrow> ?thesis"
    by (cases e)
      (auto simp: dual_description_def return_io_def split: if_splits option.splits)
next
  case (Inr ru)
  then show "fst (dual_description env (YStr s) do_translate) = Inr aug \<Longrightarrow> ?thesis"
    by (auto simp: dual_description_def return_io_def split: if_splits)
qed

lemma tolerant_dual_description_text: "tolerant env do_translate (dual_description env (YStr s) do_translate)"
proof (cases "translate env s")
  case (Inl e)
  then show ?thesis
    by (cases e)
      (auto simp: tolerant_def dual_description_def return_io_def split: option.splits)
next
  case (Inr ru)
  then show ?thesis
    by (simp add: tolerant_def dual_description_def return_io_def)
qed

lemma entry_okE:
  assumes "entry_ok e"
  obtains d s where "e = YDict d" and "dict_get d (lit ''description'') (YStr []) = YStr s"
  using assms by (auto simp: entry_ok_def text_field_ok_def split: yval.splits)

lemma macro_entry_dict:
  "macro_entry env do_translate (YDict d) =
     bind_io (dual_description env (dict_get d (lit ''description'') (YStr [])) do_translate)
       (\<lambda>description. return_io
          \<lparr>m_macro = dict_get d (lit ''macro'') (YStr []),
           m_value = dict_get d (lit ''value'') (YStr []),
           m_description = description\<rparr>)"
  by (simp add: macro_entry_def)

lemma drule_entry_dict:
  "drule_entry env do_translate (YDict d) =
     bind_io (dual_description env (dict_get d (lit ''description'') (YStr [])) do_translate)
       (\<lambda>description. return_io
          \<lparr>d_name = dict_get d (lit ''name'') (YStr []),
           d_key = dict_get d (lit ''key'') (YStr []),
           d_description = description\<rparr>)"
  by (simp add: drule_entry_def)

lemma trigger_prototype_row_dict:
  "trigger_prototype_row env do_translate (YDict d) =
     bind_io (dual_description env (dict_get d (lit ''description'') (YStr [])) do_translate)
       (\<lambda>description. return_io
          [dict_get d (lit ''name'') (YStr []), dict_get d (lit ''expression'') (YStr []),
           dict_get d (lit ''priority'') (YStr []), description])"
  by (simp add: trigger_prototype_row_def)

lemma tolerant_entries:
  assumes "entry_ok e"
  shows "tolerant env do_translate (item_entry env do_translate e)"
    and "tolerant env do_translate (macro_entry env do_translate e)"
    and "tolerant env do_translate (trigger_entry env do_translate e)"
    and "tolerant env do_translate (drule_entry env do_translate e)"
    and "tolerant env do_translate (item_prototype_row rp env do_translate e)"
    and "tolerant env do_translate (trigger_prototype_row env do_translate e)"
proof -
  from assms obtain d s where e: "e = YDict d"
    and s: "dict_get d (lit ''description'') (YStr []) = YStr s"
    by (rule entry_okE)
  show "tolerant env do_translate (item_entry env do_translate e)"
    unfolding e item_entry_dict s
    by (intro tolerant_bind tolerant_return tolerant_dual_description_text)
  show "tolerant env do_translate (macro_entry env do_translate e)"
    unfolding e macro_entry_dict s
    by (intro tolerant_bind tolerant_return tolerant_dual_description_text)
  show "tolerant env do_translate (trigger_entry env do_translate e)"
    unfolding e trigger_entry_dict s
    by (intro tolerant_bind tolerant_return tolerant_dual_description_text)
  show "tolerant env do_translate (drule_entry env do_translate e)"
    unfolding e drule_entry_dict s
    by (intro tolerant_bind tolerant_return tolerant_dual_description_text)
  show "tolerant env do_translate (item_prototype_row rp env do_translate e)"
    unfolding e item_prototype_row_dict s
    by (intro tolerant_bind tolerant_return tolerant_dual_description_text)
  show "tolerant env do_translate (trigger_prototype_row env do_translate e)"
    unfolding e trigger_prototype_row_dict s
    by (intro tolerant_bind tolerant_return tolerant_dual_description_text)
qed

lemma tolerant_loop:
  assumes "entries_ok obj k" and "\<And>e. entry_ok e \<Longrightarrow> tolerant env do_translate (f e)"
  shows "tolerant env do_translate (bind_io (lift_io (py_get obj k (YList []))) (\<lambda>coll.
           bind_io (lift_io (py_iter coll)) (\<lambda>entries. mapM_io f entries)))"
proof -
  from assms(1) have h: "has_list_field obj k" and a: "\<forall>e \<in> set (list_field obj k). entry_ok e"
    by (simp_all add: entries_ok_def list_all_iff)
  show ?thesis
    unfolding get_iter_list_field [OF h]
    using a assms(2) by (intro tolerant_mapM) simp
qed

lemma tolerant_extract_items:
  "entries_ok tpl (lit ''items'') \<Longrightarrow> tolerant env do_translate (extract_items env tpl do_translate)"
  unfolding extract_items_def by (rule tolerant_loop) (simp_all add: tolerant_entries)

lemma tolerant_extract_macros:
  "entries_ok tpl (lit ''macros'') \<Longrightarrow> tolerant env do_translate (extract_macros env tpl do_translate)"
  unfolding extract_macros_def by (rule tolerant_loop) (simp_all add: tolerant_entries)

lemma tolerant_extract_discovery_rules:
  "entries_ok tpl (lit ''discovery_rules'') \<Longrightarrow>
   tolerant env do_translate (extract_discovery_rules env tpl do_translate)"
  unfolding extract_discovery_rules_def by (rule tolerant_loop) (simp_all add: tolerant_entries)


lemma has_list_fieldE:
  assumes "has_list_field obj k"
  obtains d xs where "obj = YDict d" and "dict_get d k (YList []) = YList xs"
    and "list_field obj k = xs"
  using assms by (auto simp: has_list_field_def list_field_def split: yval.splits)

lemma tolerant_extract_triggers:
  assumes "has_list_field tpl (lit ''items'')"
    and "list_all item_ok (list_field tpl (lit ''items''))"
    and "entries_ok tpl (lit ''triggers'')"
  shows "tolerant env do_translate (extract_triggers env tpl do_translate)"
proof -
  from assms have shape: "triggers_shape tpl"
    by (simp add: triggers_shape_def entries_ok_def item_ok_def list_all_iff)
  from assms have "\<forall>t \<in> set (all_triggers tpl). entry_ok t"
    by (auto simp: all_triggers_def entries_ok_def item_ok_def list_all_iff)
  then show ?thesis
    unfolding extract_triggers_all [OF shape]
    by (intro tolerant_mapM) (simp add: tolerant_entries)
qed

lemma table_item_headers:
  "markdown_table rp item_headers rows =
     Inr (unlines (table_rows rp
       (map lit [''Name'', ''Key'', ''Type'', ''Value type'', ''Units'', ''Description'']) rows))"
  using markdown_table_unlines
    [of rp "map lit [''Name'', ''Key'', ''Type'', ''Value type'', ''Units'', ''Description'']" rows]
  by (simp add: item_headers_def)

lemma table_trigger_headers:
  "markdown_table rp trigger_headers rows =
     Inr (unlines (table_rows rp
       (map lit [''Name'', ''Expression'', ''Priority'', ''Description'']) rows))"
  using markdown_table_unlines
    [of rp "map lit [''Name'', ''Expression'', ''Priority'', ''Description'']" rows]
  by (simp add: trigger_headers_def)

lemma table_macro_headers:
  "markdown_table rp macro_headers rows =
     Inr (unlines (table_rows rp (map lit [''Macro'', ''Value'', ''Description'']) rows))"
  using markdown_table_unlines [of rp "map lit [''Macro'', ''Value'', ''Description'']" rows]
  by (simp add: macro_headers_def)

lemma table_drule_headers:
  "markdown_table rp drule_headers rows =
     Inr (unlines (table_rows rp (map lit [''Name'', ''Key'', ''Description'']) rows))"
  using markdown_table_unlines [of rp "map lit [''Name'', ''Key'', ''Description'']" rows]
  by (simp add: drule_headers_def)

lemmas table_headers = table_item_headers table_trigger_headers table_macro_headers
  table_drule_headers

lemma tolerant_items_section:
  "entries_ok tpl (lit ''items'') \<Longrightarrow> tolerant env do_translate (items_section rp env do_translate tpl)"
  unfolding items_section_def table_headers bind_lift_Inr
  by (intro tolerant_bind tolerant_if tolerant_return tolerant_extract_items)

lemma tolerant_macros_section:
  "entries_ok tpl (lit ''macros'') \<Longrightarrow> tolerant env do_translate (macros_section rp env do_translate tpl)"
  unfolding macros_section_def table_headers bind_lift_Inr
  by (intro tolerant_bind tolerant_if tolerant_return tolerant_extract_macros)

lemma tolerant_triggers_section:
  assumes "has_list_field tpl (lit ''items'')"
    and "list_all item_ok (list_field tpl (lit ''items''))"
    and "entries_ok tpl (lit ''triggers'')"
  shows "tolerant env do_translate (triggers_section rp env do_translate tpl)"
  unfolding triggers_section_def table_headers bind_lift_Inr
  by (intro tolerant_bind tolerant_if tolerant_return tolerant_extract_triggers assms)

lemma tolerant_item_prototypes_md:
  assumes "entries_ok dr (lit ''item_prototypes'')"
  shows "tolerant env do_translate (item_prototypes_md rp env do_translate dr)"
proof -
  from assms have h: "has_list_field dr (lit ''item_prototypes'')"
    and a: "\<forall>e \<in> set (list_field dr (lit ''item_prototypes'')). entry_ok e"
    by (simp_all add: entries_ok_def list_all_iff)
  from h obtain d xs where dr: "dr = YDict d"
    and xs: "dict_get d (lit ''item_prototypes'') (YList []) = YList xs"
    and l: "list_field dr (lit ''item_prototypes'') = xs"
    by (rule has_list_fieldE)
  have "tolerant env do_translate (mapM_io (item_prototype_row rp env do_translate) xs)"
    using a l by (intro tolerant_mapM) (simp add: tolerant_entries)
  then show ?thesis
    unfolding item_prototypes_md_def table_headers bind_lift_Inr dr py_get_dict xs py_iter_list
    by (intro tolerant_if tolerant_return tolerant_bind)
qed

lemma tolerant_trigger_prototypes_md:
  assumes "entries_ok dr (lit ''trigger_prototypes'')"
  shows "tolerant env do_translate (trigger_prototypes_md rp env do_translate dr)"
proof -
  from assms have h: "has_list_field dr (lit ''trigger_prototypes'')"
    and a: "\<forall>e \<in> set (list_field dr (lit ''trigger_prototypes'')). entry_ok e"
    by (simp_all add: entries_ok_def list_all_iff)
  from h obtain d xs where dr: "dr = YDict d"
    and xs: "dict_get d (lit ''trigger_prototypes'') (YList []) = YList xs"
    and l: "list_field dr (lit ''trigger_prototypes'') = xs"
    by (rule has_list_fieldE)
  have "tolerant env do_translate (mapM_io (trigger_prototype_row env do_translate) xs)"
    using a l by (intro tolerant_mapM) (simp add: tolerant_entries)
  then show ?thesis
    unfolding trigger_prototypes_md_def table_headers bind_lift_Inr dr py_get_dict xs py_iter_list
    by (intro tolerant_if tolerant_return tolerant_bind)
qed

lemma tolerant_prototypes_md:
  "drule_ok dr \<Longrightarrow> tolerant env do_translate (prototypes_md rp env do_translate dr)"
  unfolding prototypes_md_def drule_ok_def
  by (intro tolerant_bind tolerant_return tolerant_item_prototypes_md
      tolerant_trigger_prototypes_md) simp_all

lemma tolerant_discovery_section:
  assumes h: "has_list_field tpl (lit ''discovery_rules'')"
    and a: "list_all drule_ok (list_field tpl (lit ''discovery_rules''))"
  shows "tolerant env do_translate (discovery_section rp env do_translate tpl)"
proof -
  from assms have e: "entries_ok tpl (lit ''discovery_rules'')"
    by (simp add: entries_ok_def drule_ok_def list_all_iff)
  have m: "tolerant env do_translate (mapM_io (prototypes_md rp env do_translate)
           (list_field tpl (lit ''discovery_rules'')))"
    using a by (intro tolerant_mapM) (simp add: tolerant_prototypes_md list_all_iff)
  show ?thesis
    unfolding discovery_section_def table_headers bind_lift_Inr get_iter_list_field [OF h]
    by (intro tolerant_bind tolerant_if tolerant_return tolerant_extract_discovery_rules e m)
qed


lemma tolerant_title_md: "is_dict tpl \<Longrightarrow> tolerant env do_translate (title_md rp tpl)"
  by (cases tpl) (simp_all add: is_dict_def title_md_def tolerant_return)

lemma tolerant_description_md:
  assumes "text_field_ok tpl (lit ''description'')"
  shows "tolerant env do_translate (description_md env do_translate tpl)"
proof -
  from assms obtain d s where tpl: "tpl = YDict d"
    and s: "dict_get d (lit ''description'') (YStr []) = YStr s"
    by (auto simp: text_field_ok_def split: yval.splits)
  have "tolerant env do_translate (bind_io (dual_description env (YStr t) do_translate) (\<lambda>aug.
          bind_io (lift_io (sanitize_obj aug)) (\<lambda>s. return_io (s @ [newline, newline]))))" for t
  proof (rule tolerant_bind)
    show "tolerant env do_translate (dual_description env (YStr t) do_translate)"
      by (rule tolerant_dual_description_text)
  next
    fix aug
    assume "fst (dual_description env (YStr t) do_translate) = Inr aug"
    with dual_description_text [of env t do_translate aug] obtain s' where "aug = YStr s'"
      by auto
    then show "tolerant env do_translate (bind_io (lift_io (sanitize_obj aug)) (\<lambda>s. return_io (s @ [newline, newline])))"
      by (simp add: sanitize_obj_def tolerant_return)
  qed
  then show ?thesis
    by (simp add: description_md_def tpl s strip_obj_def tolerant_return)
qed

lemma tolerant_template_md:
  assumes "template_ok tpl"
  shows "tolerant env do_translate (template_md rp env do_translate tpl)"
proof -
  from assms have d: "text_field_ok tpl (lit ''description'')"
    and i: "has_list_field tpl (lit ''items'')"
    and io: "list_all item_ok (list_field tpl (lit ''items''))"
    and t: "entries_ok tpl (lit ''triggers'')"
    and m: "entries_ok tpl (lit ''macros'')"
    and r: "has_list_field tpl (lit ''discovery_rules'')"
    and ro: "list_all drule_ok (list_field tpl (lit ''discovery_rules''))"
    by (simp_all add: template_ok_def)
  from d have dict: "is_dict tpl"
    by (auto simp: text_field_ok_def is_dict_def split: yval.splits)
  from i io have ie: "entries_ok tpl (lit ''items'')"
    by (simp add: entries_ok_def item_ok_def list_all_iff)
  show ?thesis
    unfolding template_md_def
    by (intro tolerant_bind tolerant_return tolerant_title_md dict tolerant_description_md d
        tolerant_items_section ie tolerant_triggers_section i io t tolerant_macros_section m
        tolerant_discovery_section r ro)
qed

lemma tolerant_main_md_output:
  assumes "document_ok data"
  shows "tolerant env do_translate (main_md_output rp env data do_translate)"
proof -
  from assms obtain d e where data: "data = YDict d"
    and e: "dict_get d (lit ''zabbix_export'') (YDict []) = YDict e"
    and h: "has_list_field (YDict e) (lit ''templates'')"
    and a: "list_all template_ok (list_field (YDict e) (lit ''templates''))"
    by (auto simp: document_ok_def split: yval.splits)
  from h obtain xs where xs: "dict_get e (lit ''templates'') (YList []) = YList xs"
    and l: "list_field (YDict e) (lit ''templates'') = xs"
    by (auto elim: has_list_fieldE)
  have m: "tolerant env do_translate (mapM_io (template_md rp env do_translate) xs)"
    using a l by (intro tolerant_mapM) (simp add: tolerant_template_md list_all_iff)
  show ?thesis
    unfolding main_md_output_def data py_get_dict e xs py_iter_list bind_lift_Inr
    by (intro tolerant_bind tolerant_return m)
qed

lemma absent_list_field:
  "absent d k \<Longrightarrow> has_list_field (YDict d) k \<and> list_field (YDict d) k = []"
  by (simp add: absent_def has_list_field_def list_field_def dict_get_def)

lemma absent_dict_get: "absent d k \<Longrightarrow> dict_get d k dflt = dflt"
  by (simp add: absent_def dict_get_def)

lemma extract_items_absent:
  "absent d (lit ''items'') \<Longrightarrow> extract_items env (YDict d) do_translate = (Inr [], [])"
  by (simp add: extract_items_def absent_dict_get return_io_def)

lemma extract_macros_absent:
  "absent d (lit ''macros'') \<Longrightarrow> extract_macros env (YDict d) do_translate = (Inr [], [])"
  by (simp add: extract_macros_def absent_dict_get return_io_def)

lemma extract_discovery_rules_absent:
  "absent d (lit ''discovery_rules'') \<Longrightarrow>
   extract_discovery_rules env (YDict d) do_translate = (Inr [], [])"
  by (simp add: extract_discovery_rules_def absent_dict_get return_io_def)

lemma extract_triggers_absent:
  assumes "absent d (lit ''items'')" and "absent d (lit ''triggers'')"
  shows "extract_triggers env (YDict d) do_translate = (Inr [], [])"
proof -
  from assms have "triggers_shape (YDict d)" and "all_triggers (YDict d) = []"
    by (simp_all add: triggers_shape_def all_triggers_def absent_list_field)
  then show ?thesis
    by (simp add: extract_triggers_all return_io_def)
qed

lemma dual_description_empty: "dual_description env (YStr []) do_translate = return_io (YStr [])"
  by (simp add: dual_description_def py_strip_def)

lemma item_fields_absent:
  assumes "fst (item_entry env do_translate (YDict d)) = Inr r"
    and "(k, v) \<in> set (item_fields r)" and "absent d k"
  shows "v = YStr []"
proof (cases "absent d (lit ''description'')")
  case True
  with assms show ?thesis
    by (auto simp: item_entry_dict absent_dict_get dual_description_empty return_io_def
        item_fields_def)
next
  case False
  with assms show ?thesis
    by (auto simp: item_entry_dict fst_bind_Inr return_io_def item_fields_def absent_dict_get)
qed


lemma macro_fields_absent:
  assumes "fst (macro_entry env do_translate (YDict d)) = Inr r"
    and "(k, v) \<in> set (macro_fields r)" and "absent d k"
  shows "v = YStr []"
proof (cases "absent d (lit ''description'')")
  case True
  with assms show ?thesis
    by (auto simp: macro_entry_dict absent_dict_get dual_description_empty return_io_def
        macro_fields_def)
next
  case False
  with assms show ?thesis
    by (auto simp: macro_entry_dict fst_bind_Inr return_io_def macro_fields_def absent_dict_get)
qed

lemma trigger_fields_absent:
  assumes "fst (trigger_entry env do_translate (YDict d)) = Inr r"
    and "(k, v) \<in> set (trigger_fields r)" and "absent d k"
  shows "v = YStr []"
proof (cases "absent d (lit ''description'')")
  case True
  with assms show ?thesis
    by (auto simp: trigger_entry_dict absent_dict_get dual_description_empty return_io_def
        trigger_fields_def)
next
  case False
  with assms show ?thesis
    by (auto simp: trigger_entry_dict fst_bind_Inr return_io_def trigger_fields_def
        absent_dict_get)
qed

lemma drule_fields_absent:
  assumes "fst (drule_entry env do_translate (YDict d)) = Inr r"
    and "(k, v) \<in> set (drule_fields r)" and "absent d k"
  shows "v = YStr []"
proof (cases "absent d (lit ''description'')")
  case True
  with assms show ?thesis
    by (auto simp: drule_entry_dict absent_dict_get dual_description_empty return_io_def
        drule_fields_def)
next
  case False
  with assms show ?thesis
    by (auto simp: drule_entry_dict fst_bind_Inr return_io_def drule_fields_def absent_dict_get)
qed

lemma item_prototype_row_absent:
  assumes "fst (item_prototype_row rp env do_translate (YDict d)) = Inr row"
    and "(k, v) \<in> set (zip item_keys row)" and "absent d k"
  shows "v = YStr []"
proof (cases "absent d (lit ''description'')")
  case True
  with assms show ?thesis
    by (auto simp: item_prototype_row_dict absent_dict_get dual_description_empty return_io_def
        item_keys_def py_str_def)
next
  case False
  with assms show ?thesis
    by (auto simp: item_prototype_row_dict fst_bind_Inr return_io_def item_keys_def
        absent_dict_get py_str_def)
qed

lemma trigger_prototype_row_absent:
  assumes "fst (trigger_prototype_row env do_translate (YDict d)) = Inr row"
    and "(k, v) \<in> set (zip trigger_keys row)" and "absent d k"
  shows "v = YStr []"
proof (cases "absent d (lit ''description'')")
  case True
  with assms show ?thesis
    by (auto simp: trigger_prototype_row_dict absent_dict_get dual_description_empty
        return_io_def trigger_keys_def)
next
  case False
  with assms show ?thesis
    by (auto simp: trigger_prototype_row_dict fst_bind_Inr return_io_def trigger_keys_def
        absent_dict_get)
qed

text \<open>
  C7. A document in which any field and any collection may be missing is rendered
  without an error, for either flag and whatever the provider does, when writing a
  diagnostic line does not raise; in any case the only error a run on such a document can
  raise is one raised by writing a diagnostic line, never one for a missing field. An
  extractor given a template without its collection returns the empty sequence, and every
  field that an entry lacks is the empty text in the record, or in the row, built for the
  entry.
\<close>

theorem missing_fields_tolerated:
  "(document_ok data \<and> (\<not> do_translate \<or> (\<forall>line. stdout env line = None)) \<longrightarrow>
      (\<exists>out. fst (main_md_output rp env data do_translate) = Inr out)) \<and>
   (document_ok data \<longrightarrow>
      (\<forall>e. fst (main_md_output rp env data do_translate) = Inl e \<longrightarrow>
         do_translate \<and> (\<exists>line. stdout env line = Some e))) \<and>
   (absent d (lit ''items'') \<longrightarrow> extract_items env (YDict d) do_translate = (Inr [], [])) \<and>
   (absent d (lit ''macros'') \<longrightarrow> extract_macros env (YDict d) do_translate = (Inr [], [])) \<and>
   (absent d (lit ''discovery_rules'') \<longrightarrow>
      extract_discovery_rules env (YDict d) do_translate = (Inr [], [])) \<and>
   (absent d (lit ''items'') \<and> absent d (lit ''triggers'') \<longrightarrow>
      extract_triggers env (YDict d) do_translate = (Inr [], [])) \<and>
   (fst (item_entry env do_translate (YDict d)) = Inr ir \<longrightarrow>
      (\<forall>(k, v) \<in> set (item_fields ir). absent d k \<longrightarrow> v = YStr [])) \<and>
   (fst (macro_entry env do_translate (YDict d)) = Inr mr \<longrightarrow>
      (\<forall>(k, v) \<in> set (macro_fields mr). absent d k \<longrightarrow> v = YStr [])) \<and>
   (fst (trigger_entry env do_translate (YDict d)) = Inr trec \<longrightarrow>
      (\<forall>(k, v) \<in> set (trigger_fields trec). absent d k \<longrightarrow> v = YStr [])) \<and>
   (fst (drule_entry env do_translate (YDict d)) = Inr dr \<longrightarrow>
      (\<forall>(k, v) \<in> set (drule_fields dr). absent d k \<longrightarrow> v = YStr [])) \<and>
   (fst (item_prototype_row rp env do_translate (YDict d)) = Inr irow \<longrightarrow>
      (\<forall>(k, v) \<in> set (zip item_keys irow). absent d k \<longrightarrow> v = YStr [])) \<and>
   (fst (trigger_prototype_row env do_translate (YDict d)) = Inr trow \<longrightarrow>
      (\<forall>(k, v) \<in> set (zip trigger_keys trow). absent d k \<longrightarrow> v = YStr []))"
proof -
  have 1: "document_ok data \<and> (\<not> do_translate \<or> (\<forall>line. stdout env line = None)) \<longrightarrow>
      (\<exists>out. fst (main_md_output rp env data do_translate) = Inr out)"
  proof
    assume h: "document_ok data \<and> (\<not> do_translate \<or> (\<forall>line. stdout env line = None))"
    then have "tolerant env do_translate (main_md_output rp env data do_translate)"
      by (simp add: tolerant_main_md_output)
    moreover from h have "\<not> do_translate \<or> (\<forall>line. stdout env line = None)"
      by (rule conjunct2)
    ultimately show "\<exists>out. fst (main_md_output rp env data do_translate) = Inr out"
      by (rule tolerant_Inr)
  qed
  have 2: "document_ok data \<longrightarrow>
      (\<forall>e. fst (main_md_output rp env data do_translate) = Inl e \<longrightarrow>
         do_translate \<and> (\<exists>line. stdout env line = Some e))"
  proof (intro impI allI)
    fix e
    assume "document_ok data" and e: "fst (main_md_output rp env data do_translate) = Inl e"
    then have "tolerant env do_translate (main_md_output rp env data do_translate)"
      by (simp add: tolerant_main_md_output)
    from tolerant_Inl [OF this e]
    show "do_translate \<and> (\<exists>line. stdout env line = Some e)" .
  qed
  have 3: "absent d (lit ''items'') \<longrightarrow> extract_items env (YDict d) do_translate = (Inr [], [])"
    by (simp add: extract_items_absent)
  have 4: "absent d (lit ''macros'') \<longrightarrow> extract_macros env (YDict d) do_translate = (Inr [], [])"
    by (simp add: extract_macros_absent)
  have 5: "absent d (lit ''discovery_rules'') \<longrightarrow>
      extract_discovery_rules env (YDict d) do_translate = (Inr [], [])"
    by (simp add: extract_discovery_rules_absent)
  have 6: "absent d (lit ''items'') \<and> absent d (lit ''triggers'') \<longrightarrow>
      extract_triggers env (YDict d) do_translate = (Inr [], [])"
    by (simp add: extract_triggers_absent)
  have 7: "fst (item_entry env do_translate (YDict d)) = Inr ir \<longrightarrow>
      (\<forall>(k, v) \<in> set (item_fields ir). absent d k \<longrightarrow> v = YStr [])"
    using item_fields_absent [of env do_translate d ir] by fast
  have 8: "fst (macro_entry env do_translate (YDict d)) = Inr mr \<longrightarrow>
      (\<forall>(k, v) \<in> set (macro_fields mr). absent d k \<longrightarrow> v = YStr [])"
    using macro_fields_absent [of env do_translate d mr] by fast
  have 9: "fst (trigger_entry env do_translate (YDict d)) = Inr trec \<longrightarrow>
      (\<forall>(k, v) \<in> set (trigger_fields trec). absent d k \<longrightarrow> v = YStr [])"
    using trigger_fields_absent [of env do_translate d trec] by fast
  have 10: "fst (drule_entry env do_translate (YDict d)) = Inr dr \<longrightarrow>
      (\<forall>(k, v) \<in> set (drule_fields dr). absent d k \<longrightarrow> v = YStr [])"
    using drule_fields_absent [of env do_translate d dr] by fast
  have 11: "fst (item_prototype_row rp env do_translate (YDict d)) = Inr irow \<longrightarrow>
      (\<forall>(k, v) \<in> set (zip item_keys irow). absent d k \<longrightarrow> v = YStr [])"
    using item_prototype_row_absent [of rp env do_translate d irow] by fast
  have 12: "fst (trigger_prototype_row env do_translate (YDict d)) = Inr trow \<longrightarrow>
      (\<forall>(k, v) \<in> set (zip trigger_keys trow). absent d k \<longrightarrow> v = YStr [])"
    using trigger_prototype_row_absent [of env do_translate d trow] by fast
  show ?thesis
    by (intro conjI 1 2 3 4 5 6 7 8 9 10 11 12)
qed

lemma sparse_document_ok: "document_ok sparse_document"
  by (simp add: sparse_document_def document_ok_def template_ok_def text_field_ok_def
      has_list_field_def list_field_def dict_get_def item_ok_def drule_ok_def entries_ok_def
      entry_ok_def lit_def)

theorem missing_fields_tolerated_witness:
  "document_ok sparse_document \<and>
   (\<exists>out. fst (main_md_output (\<lambda>v. []) failing_env sparse_document True) = Inr out) \<and>
   absent [] (lit ''items'') \<and> absent [] (lit ''triggers'') \<and>
   extract_items failing_env (YDict []) True = (Inr [], []) \<and>
   extract_triggers failing_env (YDict []) True = (Inr [], []) \<and>
   fst (item_entry failing_env True (YDict [])) =
     Inr \<lparr>i_name = YStr [], i_key = YStr [], i_type = YStr [], i_value_type = YStr [],
          i_units = YStr [], i_description = YStr []\<rparr>"
proof -
  note t = missing_fields_tolerated
    [where data = sparse_document and rp = "\<lambda>v. []" and env = failing_env
       and do_translate = True and d = "[]"]
  have a: "absent [] (lit ''items'')" "absent [] (lit ''triggers'')"
    by (simp_all add: absent_def)
  have w: "\<forall>line. stdout failing_env line = None"
    by (simp add: failing_env_def)
  from t sparse_document_ok w
  have 1: "\<exists>out. fst (main_md_output (\<lambda>v. []) failing_env sparse_document True) = Inr out"
    by blast
  from t a have 2: "extract_items failing_env (YDict []) True = (Inr [], [])"
    by blast
  from t a have 3: "extract_triggers failing_env (YDict []) True = (Inr [], [])"
    by blast
  have 4: "fst (item_entry failing_env True (YDict [])) =
     Inr \<lparr>i_name = YStr [], i_key = YStr [], i_type = YStr [], i_value_type = YStr [],
          i_units = YStr [], i_description = YStr []\<rparr>"
    by (simp add: item_entry_dict dict_get_def dual_description_empty return_io_def)
  from sparse_document_ok a 1 2 3 4 show ?thesis
    by blast
qed


section \<open>Sections of the document\<close>

lemma fst_bind_of_Inr: "fst m = Inr x \<Longrightarrow> fst (bind_io m f) = fst (f x)"
  by (simp add: bind_io_def)

lemma items_section_empty:
  "fst (extract_items env tpl do_translate) = Inr [] \<Longrightarrow>
   fst (items_section rp env do_translate tpl) = Inr []"
  by (simp add: items_section_def fst_bind_of_Inr return_io_def)

lemma triggers_section_empty:
  "fst (extract_triggers env tpl do_translate) = Inr [] \<Longrightarrow>
   fst (triggers_section rp env do_translate tpl) = Inr []"
  by (simp add: triggers_section_def fst_bind_of_Inr return_io_def)

lemma macros_section_empty:
  "fst (extract_macros env tpl do_translate) = Inr [] \<Longrightarrow>
   fst (macros_section rp env do_translate tpl) = Inr []"
  by (simp add: macros_section_def fst_bind_of_Inr return_io_def)

lemma discovery_section_empty:
  "fst (extract_discovery_rules env tpl do_translate) = Inr [] \<Longrightarrow>
   fst (discovery_section rp env do_translate tpl) = Inr []"
  by (simp add: discovery_section_def fst_bind_of_Inr return_io_def)

lemma no_entries_dict:
  assumes "no_entries obj k"
  obtains d where "obj = YDict d" and "dict_get d k (YList []) = YList []"
  using assms by (auto simp: no_entries_def elim: has_list_fieldE)

lemma item_prototypes_md_empty:
  "no_entries dr (lit ''item_prototypes'') \<Longrightarrow>
   item_prototypes_md rp env do_translate dr = (Inr [], [])"
  by (erule no_entries_dict) (simp add: item_prototypes_md_def py_truthy_def return_io_def)

lemma trigger_prototypes_md_empty:
  "no_entries dr (lit ''trigger_prototypes'') \<Longrightarrow>
   trigger_prototypes_md rp env do_translate dr = (Inr [], [])"
  by (erule no_entries_dict) (simp add: trigger_prototypes_md_def py_truthy_def return_io_def)

lemma extract_no_entries:
  "no_entries tpl (lit ''items'') \<Longrightarrow> extract_items env tpl do_translate = return_io []"
  "no_entries tpl (lit ''macros'') \<Longrightarrow> extract_macros env tpl do_translate = return_io []"
  "no_entries tpl (lit ''discovery_rules'') \<Longrightarrow>
     extract_discovery_rules env tpl do_translate = return_io []"
  by (erule no_entries_dict,
      simp add: extract_items_def extract_macros_def extract_discovery_rules_def)+

lemma extract_triggers_no_entries:
  assumes "no_entries tpl (lit ''items'')" and "no_entries tpl (lit ''triggers'')"
  shows "extract_triggers env tpl do_translate = return_io []"
proof -
  from assms have "triggers_shape tpl" and "all_triggers tpl = []"
    by (simp_all add: no_entries_def triggers_shape_def all_triggers_def)
  then show ?thesis
    by (simp add: extract_triggers_all)
qed

lemma template_md_empty:
  assumes "empty_template tpl"
  shows "template_md rp env do_translate tpl =
     bind_io (description_md env do_translate tpl) (\<lambda>description.
       return_io (lit ''# Template: '' @ py_str rp (field tpl (lit ''template'')) @
                  [newline, newline] @ description))"
proof -
  from assms have i: "no_entries tpl (lit ''items'')" and t: "no_entries tpl (lit ''triggers'')"
    and m: "no_entries tpl (lit ''macros'')" and r: "no_entries tpl (lit ''discovery_rules'')"
    by (simp_all add: empty_template_def)
  from i obtain d where tpl: "tpl = YDict d"
    by (rule no_entries_dict)
  have title: "title_md rp tpl =
      return_io (lit ''# Template: '' @ py_str rp (field tpl (lit ''template'')) @ [newline, newline])"
    by (simp add: tpl title_md_def field_def)
  show ?thesis
    unfolding template_md_def items_section_def triggers_section_def macros_section_def
      discovery_section_def extract_no_entries(1) [OF i] extract_no_entries(2) [OF m]
      extract_no_entries(3) [OF r] extract_triggers_no_entries [OF i t] title
    by simp
qed

lemma description_md_plain:
  assumes "is_dict tpl" and "field tpl (lit ''description'') = YStr s"
  shows "description_md env False tpl =
     return_io (if py_strip s = [] then [] else sanitize_description (py_strip s) @ [newline, newline])"
proof -
  from assms obtain d where "tpl = YDict d" and "dict_get d (lit ''description'') (YStr []) = YStr s"
    by (cases tpl) (simp_all add: is_dict_def field_def)
  then show ?thesis
    by (simp add: description_md_def strip_obj_def sanitize_obj_def)
qed

lemma template_md_empty_plain:
  assumes "empty_template tpl" and "field tpl (lit ''description'') = YStr s"
  shows "template_md rp env False tpl =
     (Inr (lit ''# Template: '' @ py_str rp (field tpl (lit ''template'')) @ [newline, newline] @
           (if py_strip s = [] then [] else sanitize_description (py_strip s) @ [newline, newline])),
      [])"
proof -
  from assms(1) have "is_dict tpl"
    by (auto simp: empty_template_def is_dict_def elim: no_entries_dict)
  from description_md_plain [OF this assms(2)] show ?thesis
    by (simp add: template_md_empty [OF assms(1)] return_io_def)
qed

text \<open>
  C1. A section whose extractor returns no record adds nothing to the output, and so
  does the item-prototype or trigger-prototype subsection of a rule whose prototype
  sequence is absent or empty. A template with no item, trigger, macro or discovery rule
  renders as its title heading followed by what the description step gives; with
  augmentation off that is the heading and, unless the description is blank, the
  sanitized description paragraph.
\<close>

theorem empty_sections_omitted:
  "(fst (extract_items env tpl do_translate) = Inr [] \<longrightarrow>
      fst (items_section rp env do_translate tpl) = Inr []) \<and>
   (fst (extract_triggers env tpl do_translate) = Inr [] \<longrightarrow>
      fst (triggers_section rp env do_translate tpl) = Inr []) \<and>
   (fst (extract_macros env tpl do_translate) = Inr [] \<longrightarrow>
      fst (macros_section rp env do_translate tpl) = Inr []) \<and>
   (fst (extract_discovery_rules env tpl do_translate) = Inr [] \<longrightarrow>
      fst (discovery_section rp env do_translate tpl) = Inr []) \<and>
   (no_entries dr (lit ''item_prototypes'') \<longrightarrow>
      item_prototypes_md rp env do_translate dr = (Inr [], [])) \<and>
   (no_entries dr (lit ''trigger_prototypes'') \<longrightarrow>
      trigger_prototypes_md rp env do_translate dr = (Inr [], [])) \<and>
   (empty_template tpl \<longrightarrow>
      template_md rp env do_translate tpl =
        bind_io (description_md env do_translate tpl) (\<lambda>description.
          return_io (lit ''# Template: '' @ py_str rp (field tpl (lit ''template'')) @
                     [newline, newline] @ description))) \<and>
   (empty_template tpl \<and> field tpl (lit ''description'') = YStr s \<longrightarrow>
      template_md rp env False tpl =
        (Inr (lit ''# Template: '' @ py_str rp (field tpl (lit ''template'')) @
              [newline, newline] @
              (if py_strip s = [] then []
               else sanitize_description (py_strip s) @ [newline, newline])),
         []))"
  using items_section_empty [of env tpl do_translate rp]
    triggers_section_empty [of env tpl do_translate rp]
    macros_section_empty [of env tpl do_translate rp]
    discovery_section_empty [of env tpl do_translate rp]
    item_prototypes_md_empty [of dr rp env do_translate]
    trigger_prototypes_md_empty [of dr rp env do_translate]
    template_md_empty [of tpl rp env do_translate]
    template_md_empty_plain [of tpl s rp env]
  by blast


theorem empty_sections_omitted_witness:
  "empty_template (YDict [(YStr (lit ''template''), YStr (lit ''T'')),
                          (YStr (lit ''description''), YStr (lit '' a|b ''))]) \<and>
   template_md (\<lambda>v. []) echo_env False
     (YDict [(YStr (lit ''template''), YStr (lit ''T'')),
             (YStr (lit ''description''), YStr (lit '' a|b ''))]) =
     (Inr (lit ''# Template: T'' @ [newline, newline] @
           lit ''a'' @ [backslash, bar] @ lit ''b'' @ [newline, newline]), []) \<and>
   fst (extract_items echo_env
     (YDict [(YStr (lit ''template''), YStr (lit ''T'')),
             (YStr (lit ''description''), YStr (lit '' a|b ''))]) False) = Inr [] \<and>
   fst (items_section (\<lambda>v. []) echo_env False
     (YDict [(YStr (lit ''template''), YStr (lit ''T'')),
             (YStr (lit ''description''), YStr (lit '' a|b ''))])) = Inr [] \<and>
   no_entries (YDict [(YStr (lit ''item_prototypes''), YList [YDict [], YDict []])])
     (lit ''trigger_prototypes'') \<and>
   trigger_prototypes_md (\<lambda>v. []) echo_env False
     (YDict [(YStr (lit ''item_prototypes''), YList [YDict [], YDict []])]) = (Inr [], [])"
proof -
  let ?tpl = "YDict [(YStr (lit ''template''), YStr (lit ''T'')),
                     (YStr (lit ''description''), YStr (lit '' a|b ''))]"
  let ?dr = "YDict [(YStr (lit ''item_prototypes''), YList [YDict [], YDict []])]"
  note t = empty_sections_omitted
    [of echo_env ?tpl False "\<lambda>v. []" ?dr "lit '' a|b ''"]
  have e: "empty_template ?tpl"
    by (simp add: empty_template_def no_entries_def has_list_field_def list_field_def
        dict_get_def lit_def)
  have d: "field ?tpl (lit ''description'') = YStr (lit '' a|b '')"
    by (simp add: field_def dict_get_def lit_def)
  have n: "no_entries ?dr (lit ''trigger_prototypes'')"
    by (simp add: no_entries_def has_list_field_def list_field_def dict_get_def lit_def)
  have x: "fst (extract_items echo_env ?tpl False) = Inr []"
    by (simp add: extract_items_def dict_get_def return_io_def lit_def)
  have s: "py_strip (lit '' a|b '') = [97, bar, 98]"
    by (simp add: py_strip_def is_space_def lit_def)
  from t e d have "template_md (\<lambda>v. []) echo_env False ?tpl =
      (Inr (lit ''# Template: '' @ py_str (\<lambda>v. []) (field ?tpl (lit ''template'')) @
              [newline, newline] @
              (if py_strip (lit '' a|b '') = [] then []
               else sanitize_description (py_strip (lit '' a|b '')) @ [newline, newline])),
         [])"
    by blast
  then have 1: "template_md (\<lambda>v. []) echo_env False ?tpl =
     (Inr (lit ''# Template: T'' @ [newline, newline] @
           lit ''a'' @ [backslash, bar] @ lit ''b'' @ [newline, newline]), [])"
    by (simp add: s field_def dict_get_def py_str_def sanitize_Nil sanitize_Cons cell_escape_def)
      (simp add: lit_def)
  from t x have 2: "fst (items_section (\<lambda>v. []) echo_env False ?tpl) = Inr []"
    by blast
  from t n have 3: "trigger_prototypes_md (\<lambda>v. []) echo_env False ?dr = (Inr [], [])"
    by blast
  from e 1 x 2 n 3 show ?thesis
    by blast
qed

end
